theory Spec2Isabelle
  imports Complex_Main "HOL-Library.AList" "HOL-Library.Multiset"
begin

section \<open>schema.py: agent roles, message kinds, messages\<close>

datatype AgentType =
  ORCHESTRATOR | LLM | DOCUMENT_PROCESSING | INFORMATION_RETRIEVAL | DIALOGUE | SECURITY

datatype MessageType = COMMAND | RESPONSE | ERROR | EVENT | DATA

datatype MessagePriority = LOW | MEDIUM | HIGH | CRITICAL

text \<open>
  The values a \<^verbatim>\<open>Dict[str, Any]\<close> payload holds. A Python dict keeps insertion order, so
  a dict is an association list; \<open>map_of\<close> is \<^verbatim>\<open>dict.get\<close>.
\<close>

datatype pyval =
    PNone
  | PBool bool
  | PInt int
  | PFloat real
  | PStr string
  | PList "pyval list"
  | PDict "(string \<times> pyval) list"

text \<open>Python truthiness, as \<^verbatim>\<open>if x:\<close> and \<^verbatim>\<open>if not x:\<close> test it.\<close>

fun truthy :: "pyval \<Rightarrow> bool" where
  "truthy PNone = False"
| "truthy (PBool b) = b"
| "truthy (PInt i) = (i \<noteq> 0)"
| "truthy (PFloat x) = (x \<noteq> 0)"
| "truthy (PStr s) = (s \<noteq> [])"
| "truthy (PList xs) = (xs \<noteq> [])"
| "truthy (PDict d) = (d \<noteq> [])"

text \<open>
  \<^verbatim>\<open>class Message(BaseModel)\<close>. The field \<^verbatim>\<open>id\<close> is \<open>msg_id\<close> here (\<open>id\<close> is the
  identity function of HOL). The field \<^verbatim>\<open>timestamp\<close> is informational and never read by
  the code below; it is left out.
\<close>

record Message =
  msg_id :: string
  sender :: AgentType
  receiver :: AgentType
  message_type :: MessageType
  priority :: MessagePriority
  content :: "(string \<times> pyval) list"
  correlation_id :: "string option"
  reply_to :: "string option"

text \<open>
  The constructor. \<^verbatim>\<open>id\<close> has the default factory
  \<^verbatim>\<open>lambda: f"{datetime.now().timestamp()}"\<close>: the identifier is the wall-clock reading at
  construction, rendered as a string. The reading (already rendered) is the argument
  \<open>now\<close>; nothing else enters the identifier.
\<close>

definition new_Message ::
  "string \<Rightarrow> AgentType \<Rightarrow> AgentType \<Rightarrow> MessageType \<Rightarrow> MessagePriority \<Rightarrow>
   (string \<times> pyval) list \<Rightarrow> string option \<Rightarrow> Message" where
  "new_Message now sndr rcv mt pr c corr =
     \<lparr>msg_id = now, sender = sndr, receiver = rcv, message_type = mt, priority = pr,
      content = c, correlation_id = corr, reply_to = None\<rparr>"

section \<open>infrastructure/messaging/message\_broker.py\<close>

text \<open>
  The callables the broker stores. Two of them are created by \<^verbatim>\<open>BaseAgent\<close>: the bound method
  \<^verbatim>\<open>receive_message\<close> of the agent of a role, and the closure \<^verbatim>\<open>response_handler\<close> of one
  call of \<^verbatim>\<open>send_message_and_wait\<close> (numbered). Any other callable is \<open>Other_callable k\<close>;
  what it does when called is the parameter \<open>ext\<close> of the functions below.
\<close>

datatype callback =
    Receive_message AgentType
  | Response_handler nat
  | Other_callable nat

datatype outcome = Returned | Raised string

text \<open>
  What the program does, in order: calls of stored callables, the warnings and errors
  it logs, and (as ghost events) the changes of the one-shot table and the publications.
\<close>

datatype event =
    Published Message
  | Invoked callback Message
  | Registered string callback
  | Unregistered string
  | No_subscribers AgentType
  | Delivery_error string
  | Handling_error string string
  | Loop_error string
  | Wait_timeout string
  | Agent_error string

text \<open>
  The broker's two tables, the inbox of each role's agent, the \<^verbatim>\<open>response_container\<close> of
  each wait (its event is set exactly when the container is filled), the \<^verbatim>\<open>running\<close>
  flag of each agent, and the trace.
\<close>

record system =
  subscribers :: "AgentType \<Rightarrow> callback list option"
  response_handlers :: "string \<Rightarrow> callback option"
  inbox :: "AgentType \<Rightarrow> Message list"
  response_container :: "nat \<Rightarrow> Message option"
  running :: "AgentType \<Rightarrow> bool"
  trace :: "event list"

definition emit :: "event \<Rightarrow> system \<Rightarrow> system" where
  "emit e s = s\<lparr>trace := trace s @ [e]\<rparr>"

text \<open>Calling a stored callable with a message.\<close>

fun call_cb :: "(nat \<Rightarrow> Message \<Rightarrow> outcome) \<Rightarrow> callback \<Rightarrow> Message \<Rightarrow> system \<Rightarrow> outcome \<times> system" where
  "call_cb ext (Receive_message a) m s =
     (Returned, emit (Invoked (Receive_message a) m) (s\<lparr>inbox := (inbox s)(a := inbox s a @ [m])\<rparr>))"
| "call_cb ext (Response_handler n) m s =
     (Returned, emit (Invoked (Response_handler n) m)
        (s\<lparr>response_container := (response_container s)(n := Some m)\<rparr>))"
| "call_cb ext (Other_callable k) m s = (ext k m, emit (Invoked (Other_callable k) m) s)"

definition subscribe :: "AgentType \<Rightarrow> callback \<Rightarrow> system \<Rightarrow> system" where
  "subscribe agent_type cb s =
     (let subs = (case subscribers s agent_type of None \<Rightarrow> [] | Some l \<Rightarrow> l)
      in s\<lparr>subscribers := (subscribers s)(agent_type := Some (subs @ [cb]))\<rparr>)"

definition unsubscribe :: "AgentType \<Rightarrow> callback option \<Rightarrow> system \<Rightarrow> system" where
  "unsubscribe agent_type cb s =
     (case subscribers s agent_type of
        None \<Rightarrow> s
      | Some l \<Rightarrow>
          (case cb of
             Some c \<Rightarrow> s\<lparr>subscribers := (subscribers s)(agent_type := Some (filter (\<lambda>x. x \<noteq> c) l))\<rparr>
           | None \<Rightarrow> s\<lparr>subscribers := (subscribers s)(agent_type := Some [])\<rparr>))"

definition register_response_handler :: "string \<Rightarrow> callback \<Rightarrow> system \<Rightarrow> system" where
  "register_response_handler cid h s =
     emit (Registered cid h) (s\<lparr>response_handlers := (response_handlers s)(cid := Some h)\<rparr>)"

definition unregister_response_handler :: "string \<Rightarrow> system \<Rightarrow> system" where
  "unregister_response_handler cid s =
     (if response_handlers s cid \<noteq> None
      then emit (Unregistered cid) (s\<lparr>response_handlers := (response_handlers s)(cid := None)\<rparr>)
      else s)"

text \<open>
  The delivery loop of \<^verbatim>\<open>publish\<close>: every subscriber is called; an exception of one is
  logged and the loop goes on.
\<close>

fun deliver :: "(nat \<Rightarrow> Message \<Rightarrow> outcome) \<Rightarrow> callback list \<Rightarrow> Message \<Rightarrow> system \<Rightarrow> system" where
  "deliver ext [] m s = s"
| "deliver ext (cb # cbs) m s =
     (case call_cb ext cb m s of
        (Returned, s') \<Rightarrow> deliver ext cbs m s'
      | (Raised e, s') \<Rightarrow> deliver ext cbs m (emit (Delivery_error e) s'))"

text \<open>
  The test \<^verbatim>\<open>if message.correlation_id:\<close> followed by
  \<^verbatim>\<open>self.response_handlers.get(message.correlation_id)\<close>: the handler the first block of
  \<^verbatim>\<open>publish\<close> finds, if any.
\<close>

definition find_handler :: "Message \<Rightarrow> system \<Rightarrow> callback option" where
  "find_handler m s =
     (if message_type m = RESPONSE \<or> message_type m = ERROR
      then (case correlation_id m of
              None \<Rightarrow> None
            | Some c \<Rightarrow> if c \<noteq> [] then response_handlers s c else None)
      else None)"

definition publish :: "(nat \<Rightarrow> Message \<Rightarrow> outcome) \<Rightarrow> Message \<Rightarrow> system \<Rightarrow> outcome \<times> system" where
  "publish ext m s0 =
     (let s = emit (Published m) s0 in
      case find_handler m s of
        Some handler \<Rightarrow> call_cb ext handler m s
      | None \<Rightarrow>
          (let subs = (case subscribers s (receiver m) of None \<Rightarrow> [] | Some l \<Rightarrow> l)
           in if subs = [] then (Returned, emit (No_subscribers (receiver m)) s)
              else (Returned, deliver ext subs m s)))"

text \<open>The callables called with message \<open>m\<close> along a trace.\<close>

definition invoked_with :: "Message \<Rightarrow> event list \<Rightarrow> callback list" where
  "invoked_with m tr = concat (map (\<lambda>e. case e of Invoked cb m' \<Rightarrow> (if m' = m then [cb] else []) | _ \<Rightarrow> []) tr)"

definition new_events :: "system \<Rightarrow> system \<Rightarrow> event list" where
  "new_events s s' = drop (length (trace s)) (trace s')"

text \<open>\<^verbatim>\<open>MessageBroker.__init__\<close> and \<^verbatim>\<open>BaseAgent.__init__\<close>: empty tables, empty inboxes, no agent running.\<close>

definition init_system :: system where
  "init_system =
     \<lparr>subscribers = (\<lambda>_. None), response_handlers = (\<lambda>_. None), inbox = (\<lambda>_. []),
      response_container = (\<lambda>_. None), running = (\<lambda>_. False), trace = []\<rparr>"

definition subscribers_of :: "system \<Rightarrow> AgentType \<Rightarrow> callback list" where
  "subscribers_of s a = (case subscribers s a of None \<Rightarrow> [] | Some l \<Rightarrow> l)"

subsection \<open>Concrete broker states and messages\<close>

definition ext_quiet :: "nat \<Rightarrow> Message \<Rightarrow> outcome" where
  "ext_quiet k m = Returned"

definition ext_faulty :: "nat \<Rightarrow> Message \<Rightarrow> outcome" where
  "ext_faulty k m = Raised ''boom''"

definition sys_dialogue :: system where
  "sys_dialogue = subscribe DIALOGUE (Receive_message DIALOGUE) init_system"

definition sys_waiting :: system where
  "sys_waiting = register_response_handler ''1700000000.25'' (Response_handler 0) sys_dialogue"

definition msg_resp :: Message where
  "msg_resp = new_Message ''1700000001.5'' INFORMATION_RETRIEVAL DIALOGUE RESPONSE MEDIUM
     [(''status'', PStr ''ok'')] (Some ''1700000000.25'')"

definition msg_cmd :: Message where
  "msg_cmd = new_Message ''1700000002.75'' DIALOGUE LLM COMMAND MEDIUM
     [(''action'', PStr ''generate_text'')] None"

section \<open>core/agents/base\_agent.py\<close>

text \<open>
  \<^verbatim>\<open>start\<close> and \<^verbatim>\<open>stop\<close>. The thread that \<^verbatim>\<open>start\<close> launches runs \<open>process_messages\<close>
  below; \<^verbatim>\<open>stop\<close> clears the flag that loop tests.
\<close>

definition start :: "AgentType \<Rightarrow> system \<Rightarrow> system" where
  "start self s =
     (if running s self then s
      else subscribe self (Receive_message self) (s\<lparr>running := (running s)(self := True)\<rparr>))"

definition stop :: "AgentType \<Rightarrow> system \<Rightarrow> system" where
  "stop self s = unsubscribe self None (s\<lparr>running := (running s)(self := False)\<rparr>)"

text \<open>\<^verbatim>\<open>send_message\<close> publishes and returns \<^verbatim>\<open>message.id\<close>; the value returned is not modelled.\<close>

definition send_message :: "(nat \<Rightarrow> Message \<Rightarrow> outcome) \<Rightarrow> Message \<Rightarrow> system \<Rightarrow> outcome \<times> system" where
  "send_message ext m s = publish ext m s"

definition send_response ::
  "(nat \<Rightarrow> Message \<Rightarrow> outcome) \<Rightarrow> AgentType \<Rightarrow> string \<Rightarrow> Message \<Rightarrow> (string \<times> pyval) list \<Rightarrow>
   system \<Rightarrow> outcome \<times> system" where
  "send_response ext self now original_message c s =
     send_message ext
       (new_Message now self (sender original_message) RESPONSE MEDIUM c
          (Some (msg_id original_message))) s"

definition send_error ::
  "(nat \<Rightarrow> Message \<Rightarrow> outcome) \<Rightarrow> AgentType \<Rightarrow> string \<Rightarrow> AgentType \<Rightarrow> string \<Rightarrow> string option \<Rightarrow>
   system \<Rightarrow> outcome \<times> system" where
  "send_error ext self now rcv err corr s =
     send_message ext (new_Message now self rcv ERROR MEDIUM [(''error'', PStr err)] corr) s"

text \<open>
  What the other threads do to the broker while a caller is blocked in
  \<^verbatim>\<open>response_event.wait(timeout)\<close>: a finite sequence of broker calls. An exception of a
  \<^verbatim>\<open>publish\<close> there is raised in that other thread, not in the waiting one.
\<close>

datatype action =
    Publish Message
  | Register string callback
  | Unregister string
  | Subscribe AgentType callback
  | Unsubscribe AgentType "callback option"

fun run_action :: "(nat \<Rightarrow> Message \<Rightarrow> outcome) \<Rightarrow> action \<Rightarrow> system \<Rightarrow> system" where
  "run_action ext (Publish m) s = snd (publish ext m s)"
| "run_action ext (Register c h) s = register_response_handler c h s"
| "run_action ext (Unregister c) s = unregister_response_handler c s"
| "run_action ext (Subscribe a cb) s = subscribe a cb s"
| "run_action ext (Unsubscribe a cb) s = unsubscribe a cb s"

definition run_actions :: "(nat \<Rightarrow> Message \<Rightarrow> outcome) \<Rightarrow> action list \<Rightarrow> system \<Rightarrow> system" where
  "run_actions ext acts s = fold (run_action ext) acts s"

text \<open>
  \<^verbatim>\<open>send_message_and_wait\<close>. \<open>n\<close> numbers the call: its closure is \<open>Response_handler n\<close>,
  its container and event are new. \<open>during_wait\<close> is what the other threads do until the
  event is set or the timeout has elapsed; then the event is set exactly when the
  container is filled. The result is \<open>Inl e\<close> for an exception that leaves the function,
  \<open>Inr (Some r)\<close> for a response, \<open>Inr None\<close> for the timeout. The \<^verbatim>\<open>finally\<close> clause is
  the \<open>unregister_response_handler\<close> on each of the three paths.
\<close>

definition send_message_and_wait ::
  "(nat \<Rightarrow> Message \<Rightarrow> outcome) \<Rightarrow> nat \<Rightarrow> action list \<Rightarrow> Message \<Rightarrow> system \<Rightarrow>
   (string + Message option) \<times> system" where
  "send_message_and_wait ext n during_wait m s0 =
     (let s1 = register_response_handler (msg_id m) (Response_handler n)
                 (s0\<lparr>response_container := (response_container s0)(n := None)\<rparr>)
      in case send_message ext m s1 of
           (Raised e, s2) \<Rightarrow> (Inl e, unregister_response_handler (msg_id m) s2)
         | (Returned, s2) \<Rightarrow>
             (let s3 = run_actions ext during_wait s2
              in case response_container s3 n of
                   Some r \<Rightarrow> (Inr (Some r), unregister_response_handler (msg_id m) s3)
                 | None \<Rightarrow>
                     (Inr None,
                      unregister_response_handler (msg_id m) (emit (Wait_timeout (msg_id m)) s3))))"

text \<open>
  What a call of the abstract method \<^verbatim>\<open>handle_message\<close> does: it returns; or it raises an
  exception of class \<^verbatim>\<open>Exception\<close>, whose \<^verbatim>\<open>str\<close> is the text of \<open>Failed\<close>; or it raises
  an exception that is no \<^verbatim>\<open>Exception\<close> (\<^verbatim>\<open>SystemExit\<close>, \<^verbatim>\<open>KeyboardInterrupt\<close>,
  \<^verbatim>\<open>GeneratorExit\<close>), named by \<open>Exited\<close>, which no \<^verbatim>\<open>except Exception\<close> clause catches.
\<close>

datatype handled = Handled | Failed string | Exited string

text \<open>
  One pass through the body of \<^verbatim>\<open>while self.running:\<close> in \<^verbatim>\<open>process_messages\<close>.
  \<open>process_body\<close> is the body of the outer \<^verbatim>\<open>try\<close>, with the inner \<^verbatim>\<open>try\<close> around the
  handler; \<open>process_iteration\<close> adds the two outer \<^verbatim>\<open>except\<close> clauses (\<^verbatim>\<open>Empty\<close>, raised by
  \<^verbatim>\<open>inbox.get\<close> on an empty inbox, and \<^verbatim>\<open>Exception\<close>). \<open>now\<close> is the clock reading if an
  Error message gets constructed.
\<close>

definition process_body ::
  "(nat \<Rightarrow> Message \<Rightarrow> outcome) \<Rightarrow> (Message \<Rightarrow> system \<Rightarrow> handled \<times> system) \<Rightarrow> AgentType \<Rightarrow> string \<Rightarrow>
   system \<Rightarrow> handled \<times> system" where
  "process_body ext handle_message self now s =
     (case inbox s self of
        [] \<Rightarrow> (Failed ''Empty'', s)
      | message # rest \<Rightarrow>
          (case handle_message message (s\<lparr>inbox := (inbox s)(self := rest)\<rparr>) of
             (Handled, s2) \<Rightarrow> (Handled, s2)
           | (Exited x, s2) \<Rightarrow> (Exited x, s2)
           | (Failed e, s2) \<Rightarrow>
               (let s3 = emit (Handling_error (msg_id message) e) s2
                in if message_type message = COMMAND
                   then (case send_error ext self now (sender message)
                                (''Error processing command: '' @ e) (Some (msg_id message)) s3 of
                           (Returned, s4) \<Rightarrow> (Handled, s4)
                         | (Raised e', s4) \<Rightarrow> (Failed e', s4))
                   else (Handled, s3))))"

definition process_iteration ::
  "(nat \<Rightarrow> Message \<Rightarrow> outcome) \<Rightarrow> (Message \<Rightarrow> system \<Rightarrow> handled \<times> system) \<Rightarrow> AgentType \<Rightarrow> string \<Rightarrow>
   system \<Rightarrow> handled \<times> system" where
  "process_iteration ext handle_message self now s =
     (case inbox s self of
        [] \<Rightarrow> (Handled, s)
      | _ \<Rightarrow>
         (case process_body ext handle_message self now s of
            (Handled, s') \<Rightarrow> (Handled, s')
          | (Failed e, s') \<Rightarrow> (Handled, emit (Loop_error e) s')
          | (Exited x, s') \<Rightarrow> (Exited x, s')))"

text \<open>
  The loop. It ends when the flag is cleared, or when an exception leaves an iteration
  (the thread dies); the model also ends when the bound on the number of iterations is
  used up. \<open>clock k\<close> is the clock reading in the iteration with \<open>k\<close> iterations still to go.
\<close>

datatype loop_end = Flag_cleared | Died string | Bound_reached

fun process_messages ::
  "(nat \<Rightarrow> Message \<Rightarrow> outcome) \<Rightarrow> (Message \<Rightarrow> system \<Rightarrow> handled \<times> system) \<Rightarrow> AgentType \<Rightarrow>
   (nat \<Rightarrow> string) \<Rightarrow> nat \<Rightarrow> system \<Rightarrow> loop_end \<times> system" where
  "process_messages ext handle_message self clock 0 s = (Bound_reached, s)"
| "process_messages ext handle_message self clock (Suc k) s =
     (if \<not> running s self then (Flag_cleared, s)
      else (case process_iteration ext handle_message self (clock k) s of
              (Handled, s') \<Rightarrow> process_messages ext handle_message self clock k s'
            | (Failed e, s') \<Rightarrow> (Died e, s')
            | (Exited x, s') \<Rightarrow> (Died x, s')))"

text \<open>
  How a state may differ from an earlier one as far as the containers of the waits go:
  the trace is extended; a container changes only by a call of its own closure, which the
  extension records; a container that was filled stays filled.
\<close>

definition grows :: "system \<Rightarrow> system \<Rightarrow> bool" where
  "grows s s' \<longleftrightarrow>
     (\<exists>evs. trace s' = trace s @ evs \<and>
        (\<forall>n. (response_container s' n = response_container s n \<or>
               (\<exists>r. response_container s' n = Some r \<and> Invoked (Response_handler n) r \<in> set evs)) \<and>
              (\<forall>r. Invoked (Response_handler n) r \<in> set evs \<longrightarrow> response_container s' n \<noteq> None) \<and>
              (response_container s n \<noteq> None \<longrightarrow> response_container s' n \<noteq> None)))"



text \<open>
  A handler that raises an \<^verbatim>\<open>Exception\<close> on one message and returns on every other one,
  and a handler that calls \<^verbatim>\<open>sys.exit()\<close> on that message.
\<close>

definition handle_fragile :: "Message \<Rightarrow> system \<Rightarrow> handled \<times> system" where
  "handle_fragile m s =
     (if msg_id m = ''1700000002.75'' then (Failed ''no model'', s) else (Handled, s))"

definition handle_exiting :: "Message \<Rightarrow> system \<Rightarrow> handled \<times> system" where
  "handle_exiting m s =
     (if msg_id m = ''1700000002.75'' then (Exited ''SystemExit'', s) else (Handled, s))"

definition msg_cmd2 :: Message where
  "msg_cmd2 = new_Message ''1700000004.125'' DIALOGUE LLM COMMAND MEDIUM
     [(''action'', PStr ''get_available_models'')] None"

definition sys_llm_busy :: system where
  "sys_llm_busy =
     snd (publish ext_quiet msg_cmd2 (snd (publish ext_quiet msg_cmd (start LLM sys_dialogue))))"

text \<open>An Event on which \<open>handle_fragile\<close> raises, first in the inbox of the same agent.\<close>

definition msg_event :: Message where
  "msg_event = new_Message ''1700000002.75'' DIALOGUE LLM EVENT MEDIUM
     [(''event_type'', PStr ''agent_status_change'')] None"

definition sys_llm_event :: system where
  "sys_llm_event =
     snd (publish ext_quiet msg_cmd2 (snd (publish ext_quiet msg_event (start LLM sys_dialogue))))"

section \<open>core/document\_processing/embeddings.py\<close>

text \<open>
  The floats of embeddings and scores are the values of a type \<open>'f\<close> about which nothing is
  assumed. What numpy and Python compute on them is a parameter, a record of operations:
  the literal \<^verbatim>\<open>0.0\<close>, the sum of products \<^verbatim>\<open>np.dot\<close> gives for two arrays of one length,
  \<^verbatim>\<open>np.linalg.norm\<close>, \<^verbatim>\<open>*\<close>, \<^verbatim>\<open>/\<close> (which on numpy floats never raises), \<^verbatim>\<open>==\<close> and \<^verbatim>\<open><\<close>.
\<close>

record 'f arith =
  fl_zero :: 'f
  fl_dot :: "'f list \<Rightarrow> 'f list \<Rightarrow> 'f"
  fl_norm :: "'f list \<Rightarrow> 'f"
  fl_mul :: "'f \<Rightarrow> 'f \<Rightarrow> 'f"
  fl_div :: "'f \<Rightarrow> 'f \<Rightarrow> 'f"
  fl_eq :: "'f \<Rightarrow> 'f \<Rightarrow> bool"
  fl_lt :: "'f \<Rightarrow> 'f \<Rightarrow> bool"

text \<open>
  \<^verbatim>\<open>class EmbeddingGenerator\<close>. \<^verbatim>\<open>__init__\<close> reads the environment variable
  \<^verbatim>\<open>OPENAI_API_KEY\<close> (the argument \<open>key\<close>).
\<close>

record EmbeddingGenerator =
  model_name :: string
  use_mock :: bool

definition new_EmbeddingGenerator :: "string \<Rightarrow> string option \<Rightarrow> EmbeddingGenerator" where
  "new_EmbeddingGenerator name key =
     \<lparr>model_name = name,
      use_mock = (name = ''openai'' \<and> (case key of None \<Rightarrow> True | Some k \<Rightarrow> k = []))\<rparr>"

text \<open>
  \<^verbatim>\<open>_generate_mock_embeddings\<close>: the seed of a text is the sum of its character codes,
  \<^verbatim>\<open>np.random.seed\<close> raises \<^verbatim>\<open>ValueError\<close> for a seed of \<open>2^32\<close> or more, and \<open>normal_vector n\<close>
  is the normalised vector numpy draws after \<^verbatim>\<open>np.random.seed(n)\<close>.
\<close>

fun mock_embeddings :: "(nat \<Rightarrow> 'f list) \<Rightarrow> string list \<Rightarrow> string + 'f list list" where
  "mock_embeddings normal_vector [] = Inr []"
| "mock_embeddings normal_vector (t # ts) =
     (let seed = sum_list (map of_char t) :: nat
      in if seed < 2 ^ 32
         then (case mock_embeddings normal_vector ts of
                 Inl e \<Rightarrow> Inl e
               | Inr es \<Rightarrow> Inr (normal_vector seed # es))
         else Inl ''ValueError'')"

text \<open>
  The body of the \<^verbatim>\<open>try\<close> of \<^verbatim>\<open>_generate_openai_embeddings\<close>: the texts go to the service
  in batches of 10. \<open>api batch\<close> is what the service does with a batch at this call: the
  embeddings of \<^verbatim>\<open>response.data\<close>, or an exception.
\<close>

function openai_batches ::
  "(string list \<Rightarrow> string + 'f list list) \<Rightarrow> string list \<Rightarrow> string + 'f list list" where
  "openai_batches api texts =
     (if texts = [] then Inr []
      else (case api (take 10 texts) of
              Inl e \<Rightarrow> Inl e
            | Inr batch_embeddings \<Rightarrow>
                (case openai_batches api (drop 10 texts) of
                   Inl e \<Rightarrow> Inl e
                 | Inr rest \<Rightarrow> Inr (batch_embeddings @ rest))))"
  by pat_completeness auto
termination
  by (relation "measure (\<lambda>p. length (snd p))") auto

text \<open>
  \<^verbatim>\<open>generate_embeddings\<close>: an exception of the service is caught and answered by the mock
  embeddings.
\<close>

definition generate_embeddings ::
  "EmbeddingGenerator \<Rightarrow> (nat \<Rightarrow> 'f list) \<Rightarrow> (string list \<Rightarrow> string + 'f list list) \<Rightarrow>
   string list \<Rightarrow> string + 'f list list" where
  "generate_embeddings gen normal_vector api texts =
     (if use_mock gen \<or> model_name gen = ''mock'' then mock_embeddings normal_vector texts
      else if model_name gen = ''openai''
      then (case openai_batches api texts of
              Inl e \<Rightarrow> mock_embeddings normal_vector texts
            | Inr all_embeddings \<Rightarrow> Inr all_embeddings)
      else mock_embeddings normal_vector texts)"

section \<open>core/rag/retriever.py\<close>

text \<open>\<^verbatim>\<open>class DocumentChunk(BaseModel)\<close>; its field \<^verbatim>\<open>content\<close> is \<open>chunk_content\<close> here.\<close>

record 'f DocumentChunk =
  chunk_id :: string
  document_id :: string
  chunk_content :: string
  metadata :: "(string \<times> pyval) list"
  embedding :: "'f list option"
  page_number :: "int option"
  chunk_number :: int

text \<open>
  \<^verbatim>\<open>VectorRetriever\<close>: its two \<^verbatim>\<open>defaultdict\<close>s, in insertion order, and its embedding
  generator. \<open>AList.update\<close> is the assignment \<^verbatim>\<open>d[k] = v\<close> (a present key keeps its place, a
  new key goes to the end), \<open>AList.delete\<close> is \<^verbatim>\<open>del d[k]\<close>, \<open>get_default\<close> is
  \<^verbatim>\<open>d.get(k, default)\<close>.
\<close>

record 'f VectorRetriever =
  documents :: "(string \<times> 'f DocumentChunk list) list"
  vectors :: "(string \<times> (string \<times> 'f list) list) list"
  embedding_generator :: EmbeddingGenerator

definition new_VectorRetriever :: "string option \<Rightarrow> 'f VectorRetriever" where
  "new_VectorRetriever key =
     \<lparr>documents = [], vectors = [], embedding_generator = new_EmbeddingGenerator ''openai'' key\<rparr>"

definition get_default :: "('k \<times> 'v) list \<Rightarrow> 'k \<Rightarrow> 'v \<Rightarrow> 'v" where
  "get_default d k x = (case map_of d k of None \<Rightarrow> x | Some v \<Rightarrow> v)"

text \<open>The first loop of \<^verbatim>\<open>add_documents\<close>: \<^verbatim>\<open>doc_chunks[chunk.document_id].append(chunk)\<close>.\<close>

definition group_chunk ::
  "'f DocumentChunk \<Rightarrow> (string \<times> 'f DocumentChunk list) list \<Rightarrow> (string \<times> 'f DocumentChunk list) list" where
  "group_chunk chunk g =
     AList.update (document_id chunk) (get_default g (document_id chunk) [] @ [chunk]) g"

definition group_by_document :: "'f DocumentChunk list \<Rightarrow> (string \<times> 'f DocumentChunk list) list" where
  "group_by_document chunks = fold group_chunk chunks []"

text \<open>
  \<^verbatim>\<open>if chunk.embedding: self.vectors[doc_id][chunk.chunk_id] = chunk.embedding\<close>. The test
  is Python truthiness: \<^verbatim>\<open>None\<close> and the empty list both fail it (a warning is logged).
\<close>

definition has_embedding :: "'f DocumentChunk \<Rightarrow> bool" where
  "has_embedding chunk = (case embedding chunk of None \<Rightarrow> False | Some e \<Rightarrow> e \<noteq> [])"

definition store_vector ::
  "string \<Rightarrow> 'f DocumentChunk \<Rightarrow> (string \<times> (string \<times> 'f list) list) list \<Rightarrow>
   (string \<times> (string \<times> 'f list) list) list" where
  "store_vector doc_id chunk vs =
     (case embedding chunk of
        None \<Rightarrow> vs
      | Some e \<Rightarrow>
          if e \<noteq> [] then AList.update doc_id (AList.update (chunk_id chunk) e (get_default vs doc_id [])) vs
          else vs)"

text \<open>The body of the second loop of \<^verbatim>\<open>add_documents\<close>, for one document of the batch.\<close>

definition add_group :: "string \<times> 'f DocumentChunk list \<Rightarrow> 'f VectorRetriever \<Rightarrow> 'f VectorRetriever" where
  "add_group g r =
     r\<lparr>documents := AList.update (fst g) (get_default (documents r) (fst g) [] @ snd g) (documents r),
       vectors := fold (store_vector (fst g)) (snd g) (vectors r)\<rparr>"

definition add_documents :: "'f DocumentChunk list \<Rightarrow> 'f VectorRetriever \<Rightarrow> 'f VectorRetriever" where
  "add_documents chunks r = fold add_group (group_by_document chunks) r"

definition remove_document :: "string \<Rightarrow> 'f VectorRetriever \<Rightarrow> nat \<times> 'f VectorRetriever" where
  "remove_document d r =
     (length (get_default (documents r) d []),
      r\<lparr>documents := AList.delete d (documents r), vectors := AList.delete d (vectors r)\<rparr>)"

text \<open>
  \<^verbatim>\<open>_cosine_similarity\<close>. \<^verbatim>\<open>np.dot\<close> of two one-dimensional arrays of different lengths
  raises \<^verbatim>\<open>ValueError\<close>, and it is called before the magnitudes are looked at.
\<close>

definition np_dot :: "'f arith \<Rightarrow> 'f list \<Rightarrow> 'f list \<Rightarrow> string + 'f" where
  "np_dot ar v1 v2 =
     (if length v1 = length v2 then Inr (fl_dot ar v1 v2) else Inl ''ValueError'')"

definition cosine_similarity :: "'f arith \<Rightarrow> 'f list \<Rightarrow> 'f list \<Rightarrow> string + 'f" where
  "cosine_similarity ar vec1 vec2 =
     (case np_dot ar vec1 vec2 of
        Inl e \<Rightarrow> Inl e
      | Inr dot_product \<Rightarrow>
          (let magnitude1 = fl_norm ar vec1; magnitude2 = fl_norm ar vec2
           in if fl_eq ar magnitude1 (fl_zero ar) \<or> fl_eq ar magnitude2 (fl_zero ar)
              then Inr (fl_zero ar)
              else Inr (fl_div ar dot_product (fl_mul ar magnitude1 magnitude2))))"

text \<open>
  \<^verbatim>\<open>_filter_document_ids\<close>. \<^verbatim>\<open>doc_id in self.documents\<close> holds for a string that is a key,
  fails for any other hashable value, and raises \<^verbatim>\<open>TypeError\<close> for a list or a dict.
\<close>

fun existing_ids :: "(string \<times> 'a) list \<Rightarrow> pyval list \<Rightarrow> string + string list" where
  "existing_ids docs [] = Inr []"
| "existing_ids docs (v # vs) =
     (case v of
        PList _ \<Rightarrow> Inl ''TypeError''
      | PDict _ \<Rightarrow> Inl ''TypeError''
      | PStr d \<Rightarrow>
          (case existing_ids docs vs of
             Inl e \<Rightarrow> Inl e
           | Inr ds \<Rightarrow> Inr (if d \<in> set (map fst docs) then d # ds else ds))
      | _ \<Rightarrow> existing_ids docs vs)"

definition filter_document_ids ::
  "(string \<times> pyval) list option \<Rightarrow> 'f VectorRetriever \<Rightarrow> string + string list" where
  "filter_document_ids filters r =
     (case filters of
        None \<Rightarrow> Inr (map fst (documents r))
      | Some f \<Rightarrow>
          if f = [] then Inr (map fst (documents r))
          else (case map_of f ''document_id'' of
                  None \<Rightarrow> Inr (map fst (documents r))
                | Some v \<Rightarrow>
                    existing_ids (documents r) (case v of PList l \<Rightarrow> l | _ \<Rightarrow> [v])))"

text \<open>One entry of \<^verbatim>\<open>all_results\<close>.\<close>

record 'f hit =
  hit_document_id :: string
  hit_chunk_id :: string
  hit_content :: string
  hit_metadata :: "(string \<times> pyval) list"
  score :: 'f

text \<open>
  The inner loop of \<^verbatim>\<open>retrieve\<close> over \<^verbatim>\<open>doc_vectors.items()\<close>; \<open>doc_chunks\<close> is the dict
  built by the comprehension, in which the last chunk with an id wins.
\<close>

definition chunks_by_id :: "'f DocumentChunk list \<Rightarrow> string \<Rightarrow> 'f DocumentChunk option" where
  "chunks_by_id chunks = map_of (rev (map (\<lambda>chunk. (chunk_id chunk, chunk)) chunks))"

fun scan_vectors ::
  "'f arith \<Rightarrow> 'f list \<Rightarrow> string \<Rightarrow> (string \<Rightarrow> 'f DocumentChunk option) \<Rightarrow> (string \<times> 'f list) list \<Rightarrow>
   string + 'f hit list" where
  "scan_vectors ar q doc_id doc_chunks [] = Inr []"
| "scan_vectors ar q doc_id doc_chunks (ce # rest) =
     (case doc_chunks (fst ce) of
        None \<Rightarrow> scan_vectors ar q doc_id doc_chunks rest
      | Some chunk \<Rightarrow>
          (case cosine_similarity ar q (snd ce) of
             Inl e \<Rightarrow> Inl e
           | Inr sc \<Rightarrow>
               (case scan_vectors ar q doc_id doc_chunks rest of
                  Inl e \<Rightarrow> Inl e
                | Inr hs \<Rightarrow>
                    Inr (\<lparr>hit_document_id = doc_id, hit_chunk_id = fst ce,
                          hit_content = chunk_content chunk, hit_metadata = metadata chunk,
                          score = sc\<rparr> # hs))))"

fun scan_documents :: "'f arith \<Rightarrow> 'f list \<Rightarrow> 'f VectorRetriever \<Rightarrow> string list \<Rightarrow> string + 'f hit list" where
  "scan_documents ar q r [] = Inr []"
| "scan_documents ar q r (doc_id # ds) =
     (case scan_vectors ar q doc_id (chunks_by_id (get_default (documents r) doc_id []))
             (get_default (vectors r) doc_id []) of
        Inl e \<Rightarrow> Inl e
      | Inr hs \<Rightarrow> (case scan_documents ar q r ds of Inl e \<Rightarrow> Inl e | Inr hs' \<Rightarrow> Inr (hs @ hs')))"

text \<open>
  \<^verbatim>\<open>all_results.sort(key=lambda x: x["score"], reverse=True)\<close>. Python's sort compares keys
  with \<^verbatim>\<open><\<close> only and is stable, also with \<^verbatim>\<open>reverse=True\<close>. Where \<^verbatim>\<open><\<close> orders the keys
  (no NaN among them) every stable sort gives the same list, and the insertion sort below
  gives it. With a NaN among the keys, what Python gives depends on the runs its merge
  sort finds; for lists in which no key is less than its predecessor in the reversed
  list (as in the examples of this theory) it leaves the list as it is, and so does the
  sort below.
\<close>

fun insert_by_score :: "('f \<Rightarrow> 'f \<Rightarrow> bool) \<Rightarrow> 'f hit \<Rightarrow> 'f hit list \<Rightarrow> 'f hit list" where
  "insert_by_score lt x [] = [x]"
| "insert_by_score lt x (y # ys) =
     (if lt (score x) (score y) then y # insert_by_score lt x ys else x # y # ys)"

definition sort_by_score :: "('f \<Rightarrow> 'f \<Rightarrow> bool) \<Rightarrow> 'f hit list \<Rightarrow> 'f hit list" where
  "sort_by_score lt hs = foldr (insert_by_score lt) hs []"

text \<open>\<^verbatim>\<open>all_results[:k]\<close> for an integer \<open>k\<close>: a negative \<open>k\<close> drops from the end.\<close>

definition slice_upto :: "int \<Rightarrow> 'a list \<Rightarrow> 'a list" where
  "slice_upto k xs = (if 0 \<le> k then take (nat k) xs else take (length xs - nat (- k)) xs)"

text \<open>
  \<^verbatim>\<open>self.embedding_generator.generate_embeddings([query])[0]\<close>, the first statement of
  \<^verbatim>\<open>retrieve\<close>: indexing an empty answer raises \<^verbatim>\<open>IndexError\<close>.
\<close>

definition query_embedding ::
  "EmbeddingGenerator \<Rightarrow> (nat \<Rightarrow> 'f list) \<Rightarrow> (string list \<Rightarrow> string + 'f list list) \<Rightarrow> string \<Rightarrow>
   string + 'f list" where
  "query_embedding gen normal_vector api query =
     (case generate_embeddings gen normal_vector api [query] of
        Inl e \<Rightarrow> Inl e
      | Inr [] \<Rightarrow> Inl ''IndexError''
      | Inr (e # _) \<Rightarrow> Inr e)"

definition retrieve ::
  "'f arith \<Rightarrow> (nat \<Rightarrow> 'f list) \<Rightarrow> (string list \<Rightarrow> string + 'f list list) \<Rightarrow> string \<Rightarrow>
   (string \<times> pyval) list option \<Rightarrow> int \<Rightarrow> 'f VectorRetriever \<Rightarrow> string + 'f hit list" where
  "retrieve ar normal_vector api query filters k r =
     (case query_embedding (embedding_generator r) normal_vector api query of
        Inl e \<Rightarrow> Inl e
      | Inr q \<Rightarrow>
          (case filter_document_ids filters r of
             Inl e \<Rightarrow> Inl e
           | Inr document_ids \<Rightarrow>
               if document_ids = [] then Inr []
               else (case scan_documents ar q r document_ids of
                       Inl e \<Rightarrow> Inl e
                     | Inr results \<Rightarrow> Inr (slice_upto k (sort_by_score (fl_lt ar) results)))))"

text \<open>The vector stored for a chunk of a document, if any: \<^verbatim>\<open>vectors[d][c]\<close>.\<close>

definition lookup2 :: "('a \<times> ('b \<times> 'c) list) list \<Rightarrow> 'a \<Rightarrow> 'b \<Rightarrow> 'c option" where
  "lookup2 vs d c = (case map_of vs d of None \<Rightarrow> None | Some x \<Rightarrow> map_of x c)"

definition vector_of :: "'f VectorRetriever \<Rightarrow> string \<Rightarrow> string \<Rightarrow> 'f list option" where
  "vector_of r d c = lookup2 (vectors r) d c"

text \<open>
  That \<^verbatim>\<open><\<close> orders a set of scores: it is irreflexive and transitive there, and so is
  "not less". A NaN breaks the last: \<open>1\<close> is not less than NaN and NaN is not less than
  \<open>2\<close>.
\<close>

definition orders :: "('f \<Rightarrow> 'f \<Rightarrow> bool) \<Rightarrow> 'f set \<Rightarrow> bool" where
  "orders lt S \<longleftrightarrow>
     (\<forall>a \<in> S. \<not> lt a a) \<and>
     (\<forall>a \<in> S. \<forall>b \<in> S. \<forall>c \<in> S. lt a b \<and> lt b c \<longrightarrow> lt a c) \<and>
     (\<forall>a \<in> S. \<forall>b \<in> S. \<forall>c \<in> S. \<not> lt a b \<and> \<not> lt b c \<longrightarrow> \<not> lt a c)"

text \<open>Two scores that \<^verbatim>\<open><\<close> does not tell apart (for floats without NaN: that are equal).\<close>

definition tied :: "('f \<Rightarrow> 'f \<Rightarrow> bool) \<Rightarrow> 'f \<Rightarrow> 'f \<Rightarrow> bool" where
  "tied lt a b \<longleftrightarrow> \<not> lt a b \<and> \<not> lt b a"

section \<open>core/agents/information\_retrieval\_agent.py\<close>

text \<open>
  The retrieval agent's own state. A cache entry is the dict
  \<^verbatim>\<open>{"results": ..., "timestamp": ...}\<close>.
\<close>

record 'f InformationRetrievalAgent =
  retriever :: "'f VectorRetriever"
  query_cache :: "(string \<times> (string \<times> pyval) list) list"

text \<open>
  \<^verbatim>\<open>self.retriever.remove_document(document_id)\<close> for whatever value the message carries:
  a list or a dict is unhashable and the first dict lookup raises \<^verbatim>\<open>TypeError\<close>; a hashable
  value that is no string is the key of no document.
\<close>

definition remove_any :: "pyval \<Rightarrow> 'f VectorRetriever \<Rightarrow> string + nat \<times> 'f VectorRetriever" where
  "remove_any v r =
     (case v of
        PStr d \<Rightarrow> Inr (remove_document d r)
      | PList _ \<Rightarrow> Inl (''unhashable type: '' @ [CHR 0x27] @ ''list'' @ [CHR 0x27])
      | PDict _ \<Rightarrow> Inl (''unhashable type: '' @ [CHR 0x27] @ ''dict'' @ [CHR 0x27])
      | _ \<Rightarrow> Inr (0, r))"

text \<open>
  \<^verbatim>\<open>_handle_remove_document\<close>. \<open>clock 0\<close> and \<open>clock 1\<close> are the clock readings at the first
  and at the second message the call constructs. An exception inside the \<^verbatim>\<open>try\<close> (of the
  removal, or of \<^verbatim>\<open>send_response\<close>) is logged and answered by \<^verbatim>\<open>send_error\<close>; what was
  done before it stays done.
\<close>

definition handle_remove_document ::
  "(nat \<Rightarrow> Message \<Rightarrow> outcome) \<Rightarrow> AgentType \<Rightarrow> (nat \<Rightarrow> string) \<Rightarrow> Message \<Rightarrow>
   'f InformationRetrievalAgent \<times> system \<Rightarrow> outcome \<times> 'f InformationRetrievalAgent \<times> system" where
  "handle_remove_document ext self clock message st =
     (let ir = fst st; s = snd st;
          doc_id = get_default (content message) ''document_id'' PNone
      in if \<not> truthy doc_id
         then (case send_error ext self (clock 0) (sender message) ''Missing document_id parameter''
                      (Some (msg_id message)) s of
                 (oc, s') \<Rightarrow> (oc, ir, s'))
         else (case remove_any doc_id (retriever ir) of
                 Inl e \<Rightarrow>
                   (case send_error ext self (clock 0) (sender message)
                           (''Error removing document: '' @ e) (Some (msg_id message))
                           (emit (Agent_error (''Error removing document: '' @ e)) s) of
                      (oc, s') \<Rightarrow> (oc, ir, s'))
               | Inr (num_removed, r') \<Rightarrow>
                   (let ir' = \<lparr>retriever = r', query_cache = []\<rparr>
                    in case send_response ext self (clock 0) message
                              [(''status'', PStr ''success''), (''document_id'', doc_id),
                               (''num_chunks_removed'', PInt (int num_removed))] s of
                         (Returned, s') \<Rightarrow> (Returned, ir', s')
                       | (Raised e, s') \<Rightarrow>
                           (case send_error ext self (clock 1) (sender message)
                                   (''Error removing document: '' @ e) (Some (msg_id message))
                                   (emit (Agent_error (''Error removing document: '' @ e)) s') of
                              (oc, s'') \<Rightarrow> (oc, ir', s'')))))"

text \<open>
  The rendering of a payload value inside an f-string: a string is itself; the rendering
  of the other values is the parameter \<open>fmt\<close>.
\<close>

definition render :: "(pyval \<Rightarrow> string) \<Rightarrow> pyval \<Rightarrow> string" where
  "render fmt v = (case v of PStr x \<Rightarrow> x | _ \<Rightarrow> fmt v)"

text \<open>
  \<^verbatim>\<open>_handle_command\<close> and \<^verbatim>\<open>handle_message\<close> of the retrieval agent. The handlers of the
  actions \<^verbatim>\<open>retrieve\<close>, \<^verbatim>\<open>index_document\<close> and \<^verbatim>\<open>clear_cache\<close> are not modelled: they are
  the parameter \<open>others\<close>, by action name.
\<close>

definition ir_handle_command ::
  "(nat \<Rightarrow> Message \<Rightarrow> outcome) \<Rightarrow> AgentType \<Rightarrow> (nat \<Rightarrow> string) \<Rightarrow> (pyval \<Rightarrow> string) \<Rightarrow>
   (string \<Rightarrow> Message \<Rightarrow> 'f InformationRetrievalAgent \<times> system \<Rightarrow>
      outcome \<times> 'f InformationRetrievalAgent \<times> system) \<Rightarrow>
   Message \<Rightarrow> 'f InformationRetrievalAgent \<times> system \<Rightarrow> outcome \<times> 'f InformationRetrievalAgent \<times> system" where
  "ir_handle_command ext self clock fmt others message st =
     (let action = get_default (content message) ''action'' PNone
      in if action = PStr ''retrieve'' then others ''retrieve'' message st
         else if action = PStr ''index_document'' then others ''index_document'' message st
         else if action = PStr ''remove_document'' then handle_remove_document ext self clock message st
         else if action = PStr ''clear_cache'' then others ''clear_cache'' message st
         else (case send_error ext self (clock 0) (sender message)
                      (''Unknown action: '' @ render fmt action) (Some (msg_id message)) (snd st) of
                 (oc, s') \<Rightarrow> (oc, fst st, s')))"

definition ir_handle_message ::
  "(nat \<Rightarrow> Message \<Rightarrow> outcome) \<Rightarrow> AgentType \<Rightarrow> (nat \<Rightarrow> string) \<Rightarrow> (pyval \<Rightarrow> string) \<Rightarrow>
   (string \<Rightarrow> Message \<Rightarrow> 'f InformationRetrievalAgent \<times> system \<Rightarrow>
      outcome \<times> 'f InformationRetrievalAgent \<times> system) \<Rightarrow>
   Message \<Rightarrow> 'f InformationRetrievalAgent \<times> system \<Rightarrow> outcome \<times> 'f InformationRetrievalAgent \<times> system" where
  "ir_handle_message ext self clock fmt others message st =
     (if message_type message = COMMAND then ir_handle_command ext self clock fmt others message st
      else (Returned, st))"

section \<open>core/agents/orchestrator\_agent.py\<close>

text \<open>
  \<^verbatim>\<open>AgentType\<close> is a \<^verbatim>\<open>str\<close> enum: a member equals, and hashes as, its value
  (\<open>agent_value\<close>). Inside a payload a role is that string.
\<close>

fun agent_value :: "AgentType \<Rightarrow> string" where
  "agent_value ORCHESTRATOR = ''orchestrator''"
| "agent_value LLM = ''llm''"
| "agent_value DOCUMENT_PROCESSING = ''document_processing''"
| "agent_value INFORMATION_RETRIEVAL = ''information_retrieval''"
| "agent_value DIALOGUE = ''dialogue''"
| "agent_value SECURITY = ''security''"

definition agent_of_value :: "string \<Rightarrow> AgentType option" where
  "agent_of_value v =
     (if v = ''orchestrator'' then Some ORCHESTRATOR
      else if v = ''llm'' then Some LLM
      else if v = ''document_processing'' then Some DOCUMENT_PROCESSING
      else if v = ''information_retrieval'' then Some INFORMATION_RETRIEVAL
      else if v = ''dialogue'' then Some DIALOGUE
      else if v = ''security'' then Some SECURITY
      else None)"

text \<open>
  An entry of \<^verbatim>\<open>registered_agents\<close>; the reference to the agent object is left out. The
  registry is a dict in insertion order.
\<close>

record agent_info =
  status :: pyval
  capabilities :: "pyval list"

definition register_agent ::
  "AgentType \<Rightarrow> (AgentType \<times> agent_info) list \<Rightarrow> (AgentType \<times> agent_info) list" where
  "register_agent a reg = AList.update a \<lparr>status = PStr ''active'', capabilities = []\<rparr> reg"

definition unregister_agent ::
  "AgentType \<Rightarrow> (AgentType \<times> agent_info) list \<Rightarrow> (AgentType \<times> agent_info) list" where
  "unregister_agent a reg = AList.delete a reg"

text \<open>
  The texts that depend on the versions of Python and pydantic, taken as parameters: the
  rendering of a payload value inside an f-string (a string is itself, see \<open>render\<close>), the
  rendering of a role inside an f-string (its value up to Python 3.10, \<^verbatim>\<open>AgentType.NAME\<close>
  from 3.11 on), and the \<^verbatim>\<open>str\<close> of the \<^verbatim>\<open>ValidationError\<close> the constructor of \<^verbatim>\<open>Message\<close>
  raises for a receiver and a content.
\<close>

record renderings =
  of_value :: "pyval \<Rightarrow> string"
  of_role :: "AgentType \<Rightarrow> string"
  of_validation_error :: "pyval \<Rightarrow> pyval \<Rightarrow> string"

definition startswith :: "string \<Rightarrow> string \<Rightarrow> bool" where
  "startswith x p = (take (length p) x = p)"

fun type_name :: "pyval \<Rightarrow> string" where
  "type_name PNone = ''NoneType''"
| "type_name (PBool _) = ''bool''"
| "type_name (PInt _) = ''int''"
| "type_name (PFloat _) = ''float''"
| "type_name (PStr _) = ''str''"
| "type_name (PList _) = ''list''"
| "type_name (PDict _) = ''dict''"

text \<open>The prefix table of \<^verbatim>\<open>_dispatch_command\<close>.\<close>

definition target_of_action :: "string \<Rightarrow> AgentType option" where
  "target_of_action a =
     (if startswith a ''process_document'' \<or> startswith a ''get_document'' then Some DOCUMENT_PROCESSING
      else if startswith a ''retrieve_'' \<or> startswith a ''search_'' then Some INFORMATION_RETRIEVAL
      else if startswith a ''generate_'' \<or> startswith a ''translate_'' then Some LLM
      else if startswith a ''auth_'' \<or> startswith a ''login_'' then Some SECURITY
      else if startswith a ''chat_'' \<or> startswith a ''process_user_message'' then Some DIALOGUE
      else None)"

text \<open>
  \<^verbatim>\<open>_dispatch_command\<close>. \<^verbatim>\<open>message.content.get("action", "")\<close> may be any value; one that
  is no string has no \<^verbatim>\<open>startswith\<close> and the call raises \<^verbatim>\<open>AttributeError\<close>. \<open>now\<close> is the
  clock reading at the one message the call constructs.
\<close>

definition dispatch_command ::
  "(nat \<Rightarrow> Message \<Rightarrow> outcome) \<Rightarrow> AgentType \<Rightarrow> string \<Rightarrow> renderings \<Rightarrow>
   (AgentType \<times> agent_info) list \<Rightarrow> Message \<Rightarrow> system \<Rightarrow> outcome \<times> system" where
  "dispatch_command ext self now txt registered_agents message s =
     (case get_default (content message) ''action'' (PStr '''') of
        PStr action \<Rightarrow>
          (case target_of_action action of
             None \<Rightarrow>
               send_error ext self now (sender message)
                 (''Unknown action: '' @ action @ ''. Don'' @ [CHR 0x27]
                    @ ''t know which agent should handle it.'')
                 (Some (msg_id message)) s
           | Some target_agent \<Rightarrow>
               if target_agent \<notin> set (map fst registered_agents)
               then send_error ext self now (sender message)
                      (''Agent '' @ of_role txt target_agent @ '' not available to handle action '' @ action)
                      (Some (msg_id message)) s
               else send_message ext
                      (new_Message now self target_agent COMMAND (priority message) (content message)
                         (Some (msg_id message))) s)
      | v \<Rightarrow>
          (Raised ([CHR 0x27] @ type_name v @ [CHR 0x27] @ '' object has no attribute ''
                     @ [CHR 0x27] @ ''startswith'' @ [CHR 0x27]), s))"

text \<open>
  The branch \<^verbatim>\<open>action == "route"\<close> of \<^verbatim>\<open>_handle_command\<close>. The constructor of \<^verbatim>\<open>Message\<close>
  validates its arguments: the receiver must be the value of a role and the content a
  dict, or it raises \<^verbatim>\<open>ValidationError\<close>.
\<close>

definition route_command ::
  "(nat \<Rightarrow> Message \<Rightarrow> outcome) \<Rightarrow> AgentType \<Rightarrow> string \<Rightarrow> renderings \<Rightarrow> Message \<Rightarrow> system \<Rightarrow>
   outcome \<times> system" where
  "route_command ext self now txt message s =
     (let target_agent = get_default (content message) ''target_agent'' PNone;
          payload = get_default (content message) ''payload'' PNone
      in if \<not> truthy target_agent
         then send_error ext self now (sender message) ''Missing target_agent in route command''
                (Some (msg_id message)) s
         else if \<not> truthy payload
         then send_error ext self now (sender message) ''Missing payload in route command''
                (Some (msg_id message)) s
         else (case (target_agent, payload) of
                 (PStr v, PDict d) \<Rightarrow>
                   (case agent_of_value v of
                      None \<Rightarrow> (Raised (of_validation_error txt target_agent payload), s)
                    | Some a \<Rightarrow>
                        send_message ext
                          (new_Message now (sender message) a COMMAND MEDIUM d (Some (msg_id message))) s)
               | _ \<Rightarrow> (Raised (of_validation_error txt target_agent payload), s)))"

text \<open>
  \<^verbatim>\<open>_handle_command\<close>. In \<^verbatim>\<open>get_agent_status\<close> the test \<^verbatim>\<open>agent_type in self.registered_agents\<close>
  holds for the value of a registered role, raises \<^verbatim>\<open>TypeError\<close> for a list or a dict, and
  fails for everything else.
\<close>

definition orchestrator_handle_command ::
  "(nat \<Rightarrow> Message \<Rightarrow> outcome) \<Rightarrow> AgentType \<Rightarrow> string \<Rightarrow> renderings \<Rightarrow>
   (AgentType \<times> agent_info) list \<Rightarrow> Message \<Rightarrow> system \<Rightarrow> outcome \<times> system" where
  "orchestrator_handle_command ext self now txt registered_agents message s =
     (let action = get_default (content message) ''action'' PNone
      in if action = PStr ''ping''
         then send_response ext self now message
                [(''status'', PStr ''ok''), (''agent'', PStr (agent_value self))] s
         else if action = PStr ''get_agent_status''
         then (let agent_type = get_default (content message) ''agent_type'' PNone
               in if truthy agent_type
                  then (case agent_type of
                          PList _ \<Rightarrow> (Raised (''unhashable type: '' @ [CHR 0x27] @ ''list'' @ [CHR 0x27]), s)
                        | PDict _ \<Rightarrow> (Raised (''unhashable type: '' @ [CHR 0x27] @ ''dict'' @ [CHR 0x27]), s)
                        | _ \<Rightarrow>
                           (case (case agent_type of PStr v \<Rightarrow> agent_of_value v | _ \<Rightarrow> None) of
                              None \<Rightarrow>
                                send_error ext self now (sender message)
                                  (''Agent '' @ render (of_value txt) agent_type @ '' not found'')
                                  (Some (msg_id message)) s
                            | Some a \<Rightarrow>
                                (case map_of registered_agents a of
                                   None \<Rightarrow>
                                     send_error ext self now (sender message)
                                       (''Agent '' @ render (of_value txt) agent_type @ '' not found'')
                                       (Some (msg_id message)) s
                                 | Some info \<Rightarrow>
                                     send_response ext self now message
                                       [(''agent'', agent_type), (''status'', status info)] s)))
                  else send_response ext self now message
                         [(''agents'',
                           PDict (map (\<lambda>(a, info). (agent_value a, status info)) registered_agents))] s)
         else if action = PStr ''route'' then route_command ext self now txt message s
         else dispatch_command ext self now txt registered_agents message s)"

text \<open>
  \<^verbatim>\<open>handle_message\<close> of the orchestrator. A Response that reaches its inbox is passed over;
  an Error is logged and nothing else is done with it (the forwarding to the original
  sender is a comment in the source). \<^verbatim>\<open>_handle_event\<close> may change a status in the registry.
\<close>

definition handle_event ::
  "(AgentType \<times> agent_info) list \<Rightarrow> Message \<Rightarrow> string + (AgentType \<times> agent_info) list" where
  "handle_event registered_agents message =
     (if get_default (content message) ''event_type'' PNone = PStr ''agent_status_change''
      then (let agent_type = get_default (content message) ''agent_type'' PNone;
                st = get_default (content message) ''status'' PNone
            in if truthy agent_type \<and> truthy st
               then (case agent_type of
                       PList _ \<Rightarrow> Inl (''unhashable type: '' @ [CHR 0x27] @ ''list'' @ [CHR 0x27])
                     | PDict _ \<Rightarrow> Inl (''unhashable type: '' @ [CHR 0x27] @ ''dict'' @ [CHR 0x27])
                     | PStr v \<Rightarrow>
                         (case agent_of_value v of
                            None \<Rightarrow> Inr registered_agents
                          | Some a \<Rightarrow>
                              (case map_of registered_agents a of
                                 None \<Rightarrow> Inr registered_agents
                               | Some info \<Rightarrow>
                                   Inr (AList.update a (info\<lparr>status := st\<rparr>) registered_agents)))
                     | _ \<Rightarrow> Inr registered_agents)
               else Inr registered_agents)
      else Inr registered_agents)"

definition orchestrator_handle_message ::
  "(nat \<Rightarrow> Message \<Rightarrow> outcome) \<Rightarrow> AgentType \<Rightarrow> string \<Rightarrow> renderings \<Rightarrow>
   Message \<Rightarrow> (AgentType \<times> agent_info) list \<times> system \<Rightarrow>
   outcome \<times> (AgentType \<times> agent_info) list \<times> system" where
  "orchestrator_handle_message ext self now txt message st =
     (if message_type message = COMMAND
      then (case orchestrator_handle_command ext self now txt (fst st) message (snd st) of
              (oc, s') \<Rightarrow> (oc, fst st, s'))
      else if message_type message = RESPONSE then (Returned, st)
      else if message_type message = ERROR
      then (Returned, fst st,
            emit (Agent_error (render (of_value txt) (get_default (content message) ''error'' (PStr ''Unknown error''))))
              (snd st))
      else if message_type message = EVENT
      then (case handle_event (fst st) message of
              Inl e \<Rightarrow> (Raised e, st)
            | Inr reg \<Rightarrow> (Returned, reg, snd st))
      else (Returned, st))"

subsection \<open>A concrete arithmetic and a concrete index\<close>

text \<open>
  An arithmetic for the concrete computations of this theory: real numbers, computed
  exactly, and NaN, which every operation hands on and every comparison rejects. On the
  values used below (integers of small magnitude, their products, sums and square roots,
  which are integers again, the quotients \<open>0\<close> and \<open>1\<close>, and NaN) it gives what float64
  gives. It has no infinities and rounds nothing, and no general statement is about it.
\<close>

datatype num = Num real | NaN

fun num_add :: "num \<Rightarrow> num \<Rightarrow> num" where
  "num_add (Num a) (Num b) = Num (a + b)"
| "num_add _ _ = NaN"

fun num_mul :: "num \<Rightarrow> num \<Rightarrow> num" where
  "num_mul (Num a) (Num b) = Num (a * b)"
| "num_mul _ _ = NaN"

fun num_div :: "num \<Rightarrow> num \<Rightarrow> num" where
  "num_div (Num a) (Num b) = (if b = 0 then NaN else Num (a / b))"
| "num_div _ _ = NaN"

fun num_sqrt :: "num \<Rightarrow> num" where
  "num_sqrt (Num a) = (if a < 0 then NaN else Num (sqrt a))"
| "num_sqrt NaN = NaN"

fun num_eq :: "num \<Rightarrow> num \<Rightarrow> bool" where
  "num_eq (Num a) (Num b) = (a = b)"
| "num_eq _ _ = False"

fun num_lt :: "num \<Rightarrow> num \<Rightarrow> bool" where
  "num_lt (Num a) (Num b) = (a < b)"
| "num_lt _ _ = False"

definition num_dot :: "num list \<Rightarrow> num list \<Rightarrow> num" where
  "num_dot v w = foldl (\<lambda>acc p. num_add acc (num_mul (fst p) (snd p))) (Num 0) (zip v w)"

definition num_norm :: "num list \<Rightarrow> num" where
  "num_norm v = num_sqrt (num_dot v v)"

definition small_arith :: "num arith" where
  "small_arith = \<lparr>fl_zero = Num 0, fl_dot = num_dot, fl_norm = num_norm, fl_mul = num_mul,
     fl_div = num_div, fl_eq = num_eq, fl_lt = num_lt\<rparr>"

text \<open>
  The embedding service answering with the vector \<open>(1, 0)\<close>, the service failing, and the
  mock vector \<open>(0, 1)\<close> for every seed.
\<close>

definition api_up :: "string list \<Rightarrow> string + num list list" where
  "api_up batch = Inr (map (\<lambda>t. [Num 1, Num 0]) batch)"

definition api_down :: "string list \<Rightarrow> string + num list list" where
  "api_down batch = Inl ''APIConnectionError''"

definition normal0 :: "nat \<Rightarrow> num list" where
  "normal0 seed = [Num 0, Num 1]"

definition chunk_a :: "num DocumentChunk" where
  "chunk_a = \<lparr>chunk_id = ''c1'', document_id = ''d1'', chunk_content = ''alpha'', metadata = [],
     embedding = Some [Num 0, Num 3], page_number = None, chunk_number = 0\<rparr>"

definition chunk_b :: "num DocumentChunk" where
  "chunk_b = \<lparr>chunk_id = ''c2'', document_id = ''d1'', chunk_content = ''beta'', metadata = [],
     embedding = Some [Num 2, Num 0], page_number = None, chunk_number = 1\<rparr>"

definition chunk_c :: "num DocumentChunk" where
  "chunk_c = \<lparr>chunk_id = ''c3'', document_id = ''d1'', chunk_content = ''gamma'', metadata = [],
     embedding = Some [Num 5, Num 0], page_number = None, chunk_number = 2\<rparr>"

definition chunk_d :: "num DocumentChunk" where
  "chunk_d = \<lparr>chunk_id = ''c4'', document_id = ''d1'', chunk_content = ''delta'', metadata = [],
     embedding = Some [], page_number = None, chunk_number = 3\<rparr>"

definition chunk_e :: "num DocumentChunk" where
  "chunk_e = \<lparr>chunk_id = ''c5'', document_id = ''d2'', chunk_content = ''epsilon'', metadata = [],
     embedding = None, page_number = None, chunk_number = 0\<rparr>"

definition index0 :: "num VectorRetriever" where
  "index0 = add_documents [chunk_a, chunk_b, chunk_c, chunk_d, chunk_e]
              (new_VectorRetriever (Some ''sk-key''))"

definition hit_of :: "num DocumentChunk \<Rightarrow> num \<Rightarrow> num hit" where
  "hit_of chunk sc = \<lparr>hit_document_id = document_id chunk, hit_chunk_id = chunk_id chunk,
     hit_content = chunk_content chunk, hit_metadata = metadata chunk, score = sc\<rparr>"

text \<open>
  A chunk that comes again under the id of \<open>chunk_a\<close>, now with an empty embedding; a
  chunk whose embedding holds a NaN, between \<open>chunk_a\<close> and \<open>chunk_b\<close>; an index whose
  generator found no API key and works in mock mode; a chunk of the document whose id is
  the empty string.
\<close>

definition chunk_again :: "num DocumentChunk" where
  "chunk_again = \<lparr>chunk_id = ''c1'', document_id = ''d1'', chunk_content = ''alpha, revised'',
     metadata = [], embedding = Some [], page_number = None, chunk_number = 0\<rparr>"

definition chunk_nan :: "num DocumentChunk" where
  "chunk_nan = \<lparr>chunk_id = ''c6'', document_id = ''d1'', chunk_content = ''zeta'', metadata = [],
     embedding = Some [NaN, Num 0], page_number = None, chunk_number = 1\<rparr>"

definition index_nan :: "num VectorRetriever" where
  "index_nan = add_documents [chunk_a, chunk_nan, chunk_b] (new_VectorRetriever (Some ''sk-key''))"

definition index_mock :: "num VectorRetriever" where
  "index_mock = add_documents [chunk_a, chunk_b] (new_VectorRetriever None)"

definition chunk_blank :: "num DocumentChunk" where
  "chunk_blank = \<lparr>chunk_id = ''c7'', document_id = [], chunk_content = ''eta'', metadata = [],
     embedding = Some [Num 2, Num 0], page_number = None, chunk_number = 0\<rparr>"

subsection \<open>A concrete retrieval agent and a removal request\<close>

definition ir0 :: "num InformationRetrievalAgent" where
  "ir0 = \<lparr>retriever = index0,
           query_cache = [(''query_{}_5'', [(''results'', PDict [(''results'', PList [])]),
                                            (''timestamp'', PFloat 1700000000)])]\<rparr>"

definition msg_remove :: Message where
  "msg_remove = new_Message ''1700000006.5'' DIALOGUE INFORMATION_RETRIEVAL COMMAND MEDIUM
     [(''action'', PStr ''remove_document''), (''document_id'', PStr ''d1'')] None"

definition clock0 :: "nat \<Rightarrow> string" where
  "clock0 k = (if k = 0 then ''1700000007.5'' else ''1700000007.75'')"

text \<open>
  An agent whose index holds the document with the empty id as well, and a request to
  remove that document.
\<close>

definition ir_blank :: "num InformationRetrievalAgent" where
  "ir_blank = \<lparr>retriever = add_documents [chunk_blank] index0, query_cache = query_cache ir0\<rparr>"

definition msg_remove_blank :: Message where
  "msg_remove_blank = new_Message ''1700000008.5'' DIALOGUE INFORMATION_RETRIEVAL COMMAND MEDIUM
     [(''action'', PStr ''remove_document''), (''document_id'', PStr [])] None"

subsection \<open>A caller, the orchestrator and the retrieval agent on one broker\<close>

text \<open>
  The handlers in the shape \<open>process_iteration\<close> takes: the agent's own state is given
  and what the handler makes of it is dropped.
\<close>

definition orchestrator_as_handler ::
  "(nat \<Rightarrow> Message \<Rightarrow> outcome) \<Rightarrow> AgentType \<Rightarrow> string \<Rightarrow> renderings \<Rightarrow>
   (AgentType \<times> agent_info) list \<Rightarrow> Message \<Rightarrow> system \<Rightarrow> handled \<times> system" where
  "orchestrator_as_handler ext self now txt reg m s =
     (case orchestrator_handle_message ext self now txt m (reg, s) of
        (Returned, reg', s') \<Rightarrow> (Handled, s')
      | (Raised e, reg', s') \<Rightarrow> (Failed e, s'))"

definition ir_as_handler ::
  "(nat \<Rightarrow> Message \<Rightarrow> outcome) \<Rightarrow> AgentType \<Rightarrow> (nat \<Rightarrow> string) \<Rightarrow> (pyval \<Rightarrow> string) \<Rightarrow>
   (string \<Rightarrow> Message \<Rightarrow> 'f InformationRetrievalAgent \<times> system \<Rightarrow>
      outcome \<times> 'f InformationRetrievalAgent \<times> system) \<Rightarrow>
   'f InformationRetrievalAgent \<Rightarrow> Message \<Rightarrow> system \<Rightarrow> handled \<times> system" where
  "ir_as_handler ext self clock fmt others ir m s =
     (case ir_handle_message ext self clock fmt others m (ir, s) of
        (Returned, ir', s') \<Rightarrow> (Handled, s')
      | (Raised e, ir', s') \<Rightarrow> (Failed e, s'))"

definition fmt0 :: "pyval \<Rightarrow> string" where
  "fmt0 v = ''?''"

definition texts0 :: renderings where
  "texts0 = \<lparr>of_value = fmt0, of_role = agent_value,
              of_validation_error = (\<lambda>rcv c. ''validation error for Message'')\<rparr>"

definition others0 ::
  "string \<Rightarrow> Message \<Rightarrow> 'f InformationRetrievalAgent \<times> system \<Rightarrow>
   outcome \<times> 'f InformationRetrievalAgent \<times> system" where
  "others0 a m st = (Returned, st)"

definition registry0 :: "(AgentType \<times> agent_info) list" where
  "registry0 = register_agent INFORMATION_RETRIEVAL (register_agent DIALOGUE [])"

definition sys_three :: system where
  "sys_three = start INFORMATION_RETRIEVAL (start ORCHESTRATOR (start DIALOGUE init_system))"

definition msg_route :: Message where
  "msg_route = new_Message ''1700000010.5'' DIALOGUE ORCHESTRATOR COMMAND HIGH
     [(''action'', PStr ''route''), (''target_agent'', PStr ''information_retrieval''),
      (''payload'', PDict [(''action'', PStr ''remove_document''), (''document_id'', PStr ''d1'')])]
     None"

definition msg_routed :: Message where
  "msg_routed = new_Message ''1700000011.25'' DIALOGUE INFORMATION_RETRIEVAL COMMAND MEDIUM
     [(''action'', PStr ''remove_document''), (''document_id'', PStr ''d1'')]
     (Some ''1700000010.5'')"

definition msg_removed :: Message where
  "msg_removed = new_Message ''1700000012.5'' INFORMATION_RETRIEVAL DIALOGUE RESPONSE MEDIUM
     [(''status'', PStr ''success''), (''document_id'', PStr ''d1''), (''num_chunks_removed'', PInt 4)]
     (Some ''1700000011.25'')"

text \<open>
  The caller is inside \<^verbatim>\<open>send_message_and_wait\<close>, past the publication; then the
  orchestrator's loop takes the Command from its inbox; then the retrieval agent's loop
  takes the routed Command from its inbox.
\<close>

definition route_sent :: system where
  "route_sent = snd (send_message ext_quiet msg_route
     (register_response_handler (msg_id msg_route) (Response_handler 0) sys_three))"

definition route_forwarded :: system where
  "route_forwarded = snd (process_iteration ext_quiet
     (orchestrator_as_handler ext_quiet ORCHESTRATOR ''1700000011.25'' texts0 registry0)
     ORCHESTRATOR ''1700000011.5'' route_sent)"

definition route_answered :: system where
  "route_answered = snd (process_iteration ext_quiet
     (ir_as_handler ext_quiet INFORMATION_RETRIEVAL (\<lambda>k. ''1700000012.5'') fmt0 others0 ir0)
     INFORMATION_RETRIEVAL ''1700000012.75'' route_forwarded)"

text \<open>The same with a Command the orchestrator forwards by the prefix of its action.\<close>

definition msg_search :: Message where
  "msg_search = new_Message ''1700000020.5'' DIALOGUE ORCHESTRATOR COMMAND HIGH
     [(''action'', PStr ''retrieve_documents''), (''query'', PStr ''contract'')] None"

definition msg_forwarded :: Message where
  "msg_forwarded = new_Message ''1700000021.25'' ORCHESTRATOR INFORMATION_RETRIEVAL COMMAND HIGH
     [(''action'', PStr ''retrieve_documents''), (''query'', PStr ''contract'')]
     (Some ''1700000020.5'')"

definition msg_unknown :: Message where
  "msg_unknown = new_Message ''1700000022.5'' INFORMATION_RETRIEVAL ORCHESTRATOR ERROR MEDIUM
     [(''error'', PStr ''Unknown action: retrieve_documents'')] (Some ''1700000021.25'')"

definition search_sent :: system where
  "search_sent = snd (send_message ext_quiet msg_search
     (register_response_handler (msg_id msg_search) (Response_handler 1) sys_three))"

definition search_forwarded :: system where
  "search_forwarded = snd (process_iteration ext_quiet
     (orchestrator_as_handler ext_quiet ORCHESTRATOR ''1700000021.25'' texts0 registry0)
     ORCHESTRATOR ''1700000021.5'' search_sent)"

definition search_answered :: system where
  "search_answered = snd (process_iteration ext_quiet
     (ir_as_handler ext_quiet INFORMATION_RETRIEVAL (\<lambda>k. ''1700000022.5'') fmt0 others0 ir0)
     INFORMATION_RETRIEVAL ''1700000022.75'' search_forwarded)"

definition search_dropped :: system where
  "search_dropped = snd (process_iteration ext_quiet
     (orchestrator_as_handler ext_quiet ORCHESTRATOR ''1700000023.25'' texts0 registry0)
     ORCHESTRATOR ''1700000023.5'' search_answered)"

text \<open>A second Command, constructed at the clock reading at which \<open>msg_cmd\<close> was.\<close>

definition msg_clash :: Message where
  "msg_clash = new_Message ''1700000002.75'' SECURITY LLM COMMAND MEDIUM
     [(''action'', PStr ''get_available_models'')] None"

section \<open>Properties of the broker\<close>

lemma call_cb_tables:
  "call_cb ext cb m s = (oc, s') \<Longrightarrow>
     subscribers s' = subscribers s \<and> response_handlers s' = response_handlers s \<and> running s' = running s"
  by (cases cb) (auto simp: emit_def)

lemma call_cb_trace:
  "call_cb ext cb m s = (oc, s') \<Longrightarrow> trace s' = trace s @ [Invoked cb m]"
  by (cases cb) (auto simp: emit_def)

lemma deliver_tables:
  "subscribers (deliver ext cbs m s) = subscribers s \<and>
   response_handlers (deliver ext cbs m s) = response_handlers s \<and>
   running (deliver ext cbs m s) = running s"
proof (induction cbs arbitrary: s)
  case Nil
  show ?case by simp
next
  case (Cons cb cbs)
  obtain oc s' where c: "call_cb ext cb m s = (oc, s')" by (cases "call_cb ext cb m s")
  from call_cb_tables [OF c] Cons.IH [of s'] Cons.IH [of "emit (Delivery_error e) s'" for e]
  show ?case using c by (cases oc) (simp_all add: emit_def)
qed

lemma invoked_with_append: "invoked_with m (xs @ ys) = invoked_with m xs @ invoked_with m ys"
  by (simp add: invoked_with_def)

lemma deliver_trace:
  "\<exists>evs. trace (deliver ext cbs m s) = trace s @ evs \<and> invoked_with m evs = cbs"
proof (induction cbs arbitrary: s)
  case Nil
  show ?case by (simp add: invoked_with_def)
next
  case (Cons cb cbs)
  obtain oc s' where c: "call_cb ext cb m s = (oc, s')" by (cases "call_cb ext cb m s")
  have t: "trace s' = trace s @ [Invoked cb m]" by (rule call_cb_trace [OF c])
  show ?case
  proof (cases oc)
    case Returned
    from Cons.IH [of s'] obtain evs where
      e: "trace (deliver ext cbs m s') = trace s' @ evs" "invoked_with m evs = cbs" by blast
    have "trace (deliver ext (cb # cbs) m s) = trace s @ (Invoked cb m # evs)"
      using c Returned e(1) t by simp
    moreover have "invoked_with m (Invoked cb m # evs) = cb # cbs"
      using e(2) by (simp add: invoked_with_def)
    ultimately show ?thesis by blast
  next
    case (Raised x)
    from Cons.IH [of "emit (Delivery_error x) s'"] obtain evs where
      e: "trace (deliver ext cbs m (emit (Delivery_error x) s')) = trace (emit (Delivery_error x) s') @ evs"
         "invoked_with m evs = cbs" by blast
    have "trace (deliver ext (cb # cbs) m s) = trace s @ (Invoked cb m # Delivery_error x # evs)"
      using c Raised e(1) t by (simp add: emit_def)
    moreover have "invoked_with m (Invoked cb m # Delivery_error x # evs) = cb # cbs"
      using e(2) by (simp add: invoked_with_def)
    ultimately show ?thesis by blast
  qed
qed

lemma new_events_append: "trace s' = trace s @ evs \<Longrightarrow> new_events s s' = evs"
  by (simp add: new_events_def)

lemma publish_tables:
  "publish ext m s = (oc, s') \<Longrightarrow>
     subscribers s' = subscribers s \<and> response_handlers s' = response_handlers s \<and> running s' = running s"
  unfolding publish_def Let_def
  by (auto simp: emit_def deliver_tables split: option.splits if_splits dest!: call_cb_tables)


text \<open>
  C1, as the code has it. A Response or Error whose \<^verbatim>\<open>correlation_id\<close> is set (and not the
  empty string) is handed to the one-shot handler registered under that id and to nothing
  else: the handler is the only callable called, no inbox changes through a subscriber.
  When no handler is registered under the id, \<^verbatim>\<open>publish\<close> falls through to ordinary
  delivery: the callables called are exactly the subscribers of the receiver, in order;
  the message is dropped (with a warning) only when the receiver has none.
\<close>

theorem publish_correlated_routing:
  assumes "message_type m = RESPONSE \<or> message_type m = ERROR"
    and "correlation_id m = Some c" and "c \<noteq> []"
    and "publish ext m s = (oc, s')"
  shows "(\<forall>h. response_handlers s c = Some h \<longrightarrow>
            new_events s s' = [Published m, Invoked h m] \<and> invoked_with m (new_events s s') = [h])
       \<and> (response_handlers s c = None \<longrightarrow>
            oc = Returned \<and> invoked_with m (new_events s s') = subscribers_of s (receiver m) \<and>
            (subscribers_of s (receiver m) = [] \<longrightarrow>
               new_events s s' = [Published m, No_subscribers (receiver m)]))"
proof (intro conjI allI impI)
  fix h assume h: "response_handlers s c = Some h"
  have fh: "find_handler m (emit (Published m) s) = Some h"
    using assms(1-3) h by (auto simp: find_handler_def emit_def)
  have c: "call_cb ext h m (emit (Published m) s) = (oc, s')"
    using assms(4) fh by (simp add: publish_def Let_def)
  have "trace s' = trace s @ [Published m, Invoked h m]"
    using call_cb_trace [OF c] by (simp add: emit_def)
  then show "new_events s s' = [Published m, Invoked h m]" by (rule new_events_append)
  then show "invoked_with m (new_events s s') = [h]" by (simp add: invoked_with_def)
next
  assume n: "response_handlers s c = None"
  have fh: "find_handler m (emit (Published m) s) = None"
    using assms(1-3) n by (auto simp: find_handler_def emit_def)
  have subs: "(case subscribers (emit (Published m) s) (receiver m) of None \<Rightarrow> [] | Some l \<Rightarrow> l)
                = subscribers_of s (receiver m)"
    by (simp add: subscribers_of_def emit_def)
  show "oc = Returned"
    using assms(4) fh by (auto simp: publish_def Let_def split: if_splits)
  show "invoked_with m (new_events s s') = subscribers_of s (receiver m)"
  proof (cases "subscribers_of s (receiver m) = []")
    case True
    then have "s' = emit (No_subscribers (receiver m)) (emit (Published m) s)"
      using assms(4) fh subs by (simp add: publish_def Let_def)
    then have "trace s' = trace s @ [Published m, No_subscribers (receiver m)]"
      by (simp add: emit_def)
    then have "new_events s s' = [Published m, No_subscribers (receiver m)]"
      by (rule new_events_append)
    then show ?thesis using True by (simp add: invoked_with_def)
  next
    case False
    then have s': "s' = deliver ext (subscribers_of s (receiver m)) m (emit (Published m) s)"
      using assms(4) fh subs by (simp add: publish_def Let_def)
    from deliver_trace [of ext "subscribers_of s (receiver m)" m "emit (Published m) s"]
    obtain evs where e: "trace s' = trace (emit (Published m) s) @ evs"
      "invoked_with m evs = subscribers_of s (receiver m)" using s' by blast
    have "trace s' = trace s @ (Published m # evs)" using e(1) by (simp add: emit_def)
    then have "new_events s s' = Published m # evs" by (rule new_events_append)
    then show ?thesis using e(2) by (simp add: invoked_with_def)
  qed
  {
    assume True: "subscribers_of s (receiver m) = []"
    then have "s' = emit (No_subscribers (receiver m)) (emit (Published m) s)"
      using assms(4) fh subs by (simp add: publish_def Let_def)
    then have "trace s' = trace s @ [Published m, No_subscribers (receiver m)]"
      by (simp add: emit_def)
    then show "new_events s s' = [Published m, No_subscribers (receiver m)]"
      by (rule new_events_append)
  }
qed

text \<open>
  C8. A message that the first block of \<^verbatim>\<open>publish\<close> does not hand to a one-shot handler
  (it is no Response or Error, or it has no correlation id, or no handler is registered
  under its id) and whose receiver has no subscriber (no entry, or an empty list):
  \<^verbatim>\<open>publish\<close> returns normally, both tables and every inbox are as before, and the only
  thing it does is to log the warning.
\<close>

theorem publish_no_subscribers:
  assumes "(message_type m \<noteq> RESPONSE \<and> message_type m \<noteq> ERROR) \<or> correlation_id m = None
           \<or> (\<exists>c. correlation_id m = Some c \<and> response_handlers s c = None)"
    and "subscribers s (receiver m) = None \<or> subscribers s (receiver m) = Some []"
  shows "fst (publish ext m s) = Returned
       \<and> subscribers (snd (publish ext m s)) = subscribers s
       \<and> response_handlers (snd (publish ext m s)) = response_handlers s
       \<and> inbox (snd (publish ext m s)) = inbox s
       \<and> response_container (snd (publish ext m s)) = response_container s
       \<and> new_events s (snd (publish ext m s)) = [Published m, No_subscribers (receiver m)]"
proof -
  have fh: "find_handler m (emit (Published m) s) = None"
    using assms(1) by (auto simp: find_handler_def emit_def)
  have subs: "(case subscribers (emit (Published m) s) (receiver m) of None \<Rightarrow> [] | Some l \<Rightarrow> l) = []"
    using assms(2) by (auto simp: emit_def)
  have p: "publish ext m s = (Returned, emit (No_subscribers (receiver m)) (emit (Published m) s))"
    using fh subs by (simp add: publish_def Let_def)
  show ?thesis unfolding p by (simp add: emit_def new_events_def)
qed

theorem publish_correlated_routing_witness:
  "new_events sys_waiting (snd (publish ext_quiet msg_resp sys_waiting))
     = [Published msg_resp, Invoked (Response_handler 0) msg_resp]
   \<and> inbox (snd (publish ext_quiet msg_resp sys_waiting)) DIALOGUE = []
   \<and> invoked_with msg_resp (new_events sys_dialogue (snd (publish ext_quiet msg_resp sys_dialogue)))
     = [Receive_message DIALOGUE]"
proof -
  have a: "message_type msg_resp = RESPONSE \<or> message_type msg_resp = ERROR"
    by (simp add: msg_resp_def new_Message_def)
  have b: "correlation_id msg_resp = Some ''1700000000.25''"
    by (simp add: msg_resp_def new_Message_def)
  have c: "''1700000000.25'' \<noteq> []" by simp
  have h: "response_handlers sys_waiting ''1700000000.25'' = Some (Response_handler 0)"
    by (simp add: sys_waiting_def register_response_handler_def emit_def)
  have n: "response_handlers sys_dialogue ''1700000000.25'' = None"
    by (simp add: sys_dialogue_def subscribe_def init_system_def)
  have subs: "subscribers_of sys_dialogue (receiver msg_resp) = [Receive_message DIALOGUE]"
    by (simp add: subscribers_of_def sys_dialogue_def subscribe_def init_system_def msg_resp_def
        new_Message_def)
  have i: "inbox (snd (publish ext_quiet msg_resp sys_waiting)) DIALOGUE = []"
    by (simp add: publish_def find_handler_def emit_def sys_waiting_def sys_dialogue_def
        register_response_handler_def subscribe_def init_system_def msg_resp_def new_Message_def)
  from publish_correlated_routing [where ext = ext_quiet and s = sys_waiting, OF a b c surjective_pairing] h
  have 1: "new_events sys_waiting (snd (publish ext_quiet msg_resp sys_waiting))
     = [Published msg_resp, Invoked (Response_handler 0) msg_resp]" by simp
  from publish_correlated_routing [where ext = ext_quiet and s = sys_dialogue, OF a b c surjective_pairing] n subs
  have 2: "invoked_with msg_resp (new_events sys_dialogue (snd (publish ext_quiet msg_resp sys_dialogue)))
     = [Receive_message DIALOGUE]" by simp
  from 1 i 2 show ?thesis by simp
qed

text \<open>
  The claim as the specification words it fails: a Response with a correlation id under
  which no handler is registered is not dropped; the subscriber of its receiver gets it.
\<close>

theorem publish_unrouted_response_counterexample:
  "message_type msg_resp = RESPONSE
   \<and> correlation_id msg_resp = Some ''1700000000.25''
   \<and> response_handlers sys_dialogue ''1700000000.25'' = None
   \<and> subscribers sys_dialogue DIALOGUE = Some [Receive_message DIALOGUE]
   \<and> inbox (snd (publish ext_quiet msg_resp sys_dialogue)) DIALOGUE = [msg_resp]"
  by (simp add: publish_def find_handler_def emit_def sys_dialogue_def subscribe_def
      init_system_def msg_resp_def new_Message_def)

theorem publish_no_subscribers_witness:
  "fst (publish ext_faulty msg_cmd sys_dialogue) = Returned
   \<and> subscribers (snd (publish ext_faulty msg_cmd sys_dialogue)) = subscribers sys_dialogue
   \<and> response_handlers (snd (publish ext_faulty msg_cmd sys_dialogue)) = response_handlers sys_dialogue
   \<and> new_events sys_dialogue (snd (publish ext_faulty msg_cmd sys_dialogue))
       = [Published msg_cmd, No_subscribers LLM]
   \<and> fst (publish ext_faulty (msg_resp\<lparr>receiver := LLM\<rparr>) sys_dialogue) = Returned"
proof -
  have a: "(message_type msg_cmd \<noteq> RESPONSE \<and> message_type msg_cmd \<noteq> ERROR) \<or> correlation_id msg_cmd = None
           \<or> (\<exists>c. correlation_id msg_cmd = Some c \<and> response_handlers sys_dialogue c = None)"
    by (simp add: msg_cmd_def new_Message_def)
  have b: "subscribers sys_dialogue (receiver msg_cmd) = None \<or> subscribers sys_dialogue (receiver msg_cmd) = Some []"
    by (simp add: msg_cmd_def new_Message_def sys_dialogue_def subscribe_def init_system_def)
  have r: "receiver msg_cmd = LLM" by (simp add: msg_cmd_def new_Message_def)
  have a': "(message_type (msg_resp\<lparr>receiver := LLM\<rparr>) \<noteq> RESPONSE \<and> message_type (msg_resp\<lparr>receiver := LLM\<rparr>) \<noteq> ERROR)
           \<or> correlation_id (msg_resp\<lparr>receiver := LLM\<rparr>) = None
           \<or> (\<exists>c. correlation_id (msg_resp\<lparr>receiver := LLM\<rparr>) = Some c \<and> response_handlers sys_dialogue c = None)"
    by (simp add: msg_resp_def new_Message_def sys_dialogue_def subscribe_def init_system_def)
  have b': "subscribers sys_dialogue (receiver (msg_resp\<lparr>receiver := LLM\<rparr>)) = None
            \<or> subscribers sys_dialogue (receiver (msg_resp\<lparr>receiver := LLM\<rparr>)) = Some []"
    by (simp add: sys_dialogue_def subscribe_def init_system_def)
  from publish_no_subscribers [where ext = ext_faulty, OF a b] publish_no_subscribers [where ext = ext_faulty, OF a' b'] r
  show ?thesis by simp
qed

section \<open>Properties of the agent runtime\<close>

lemma grows_refl: "grows s s"
  by (simp add: grows_def)

lemma grows_trans:
  assumes "grows s s'" and "grows s' s''"
  shows "grows s s''"
proof -
  from assms(1) obtain e1 where 1: "trace s' = trace s @ e1"
    and a1: "\<And>n. (response_container s' n = response_container s n \<or>
               (\<exists>r. response_container s' n = Some r \<and> Invoked (Response_handler n) r \<in> set e1)) \<and>
              (\<forall>r. Invoked (Response_handler n) r \<in> set e1 \<longrightarrow> response_container s' n \<noteq> None) \<and>
              (response_container s n \<noteq> None \<longrightarrow> response_container s' n \<noteq> None)"
    unfolding grows_def by blast
  from assms(2) obtain e2 where 2: "trace s'' = trace s' @ e2"
    and a2: "\<And>n. (response_container s'' n = response_container s' n \<or>
               (\<exists>r. response_container s'' n = Some r \<and> Invoked (Response_handler n) r \<in> set e2)) \<and>
              (\<forall>r. Invoked (Response_handler n) r \<in> set e2 \<longrightarrow> response_container s'' n \<noteq> None) \<and>
              (response_container s' n \<noteq> None \<longrightarrow> response_container s'' n \<noteq> None)"
    unfolding grows_def by blast
  have t: "trace s'' = trace s @ (e1 @ e2)" using 1 2 by simp
  have "\<And>n. (response_container s'' n = response_container s n \<or>
               (\<exists>r. response_container s'' n = Some r \<and> Invoked (Response_handler n) r \<in> set (e1 @ e2))) \<and>
              (\<forall>r. Invoked (Response_handler n) r \<in> set (e1 @ e2) \<longrightarrow> response_container s'' n \<noteq> None) \<and>
              (response_container s n \<noteq> None \<longrightarrow> response_container s'' n \<noteq> None)"
  proof -
    fix n
    show "(response_container s'' n = response_container s n \<or>
               (\<exists>r. response_container s'' n = Some r \<and> Invoked (Response_handler n) r \<in> set (e1 @ e2))) \<and>
              (\<forall>r. Invoked (Response_handler n) r \<in> set (e1 @ e2) \<longrightarrow> response_container s'' n \<noteq> None) \<and>
              (response_container s n \<noteq> None \<longrightarrow> response_container s'' n \<noteq> None)"
      using a1 [of n] a2 [of n] by (auto simp: )
  qed
  with t show ?thesis unfolding grows_def by blast
qed

lemma grows_emit: "(\<And>cb m. e \<noteq> Invoked cb m) \<Longrightarrow> grows s (emit e s)"
  by (auto simp: grows_def emit_def)

lemma grows_call_cb: "call_cb ext cb m s = (oc, s') \<Longrightarrow> grows s s'"
  by (cases cb) (auto simp: grows_def emit_def)

lemma grows_deliver: "grows s (deliver ext cbs m s)"
proof (induction cbs arbitrary: s)
  case Nil
  show ?case by (simp add: grows_refl)
next
  case (Cons cb cbs)
  obtain oc s' where c: "call_cb ext cb m s = (oc, s')" by (cases "call_cb ext cb m s")
  have g: "grows s s'" by (rule grows_call_cb [OF c])
  show ?case
  proof (cases oc)
    case Returned
    then show ?thesis using c g Cons.IH [of s'] by (auto intro: grows_trans)
  next
    case (Raised x)
    have "grows s' (emit (Delivery_error x) s')" by (rule grows_emit) simp
    with g have "grows s (emit (Delivery_error x) s')" by (rule grows_trans)
    then show ?thesis using c Raised Cons.IH [of "emit (Delivery_error x) s'"]
      by (auto intro: grows_trans)
  qed
qed











lemma publish_trace:
  "publish ext m s = (oc, s') \<Longrightarrow> \<exists>evs. trace s' = trace s @ Published m # evs"
proof -
  assume p: "publish ext m s = (oc, s')"
  have w: "grows (emit (Published m) s) (emit (No_subscribers (receiver m)) (emit (Published m) s))"
    by (rule grows_emit) simp
  have "grows (emit (Published m) s) s'"
    using p w unfolding publish_def Let_def
    by (auto split: option.splits if_splits intro: grows_call_cb grows_deliver)
  then obtain evs where "trace s' = trace (emit (Published m) s) @ evs"
    unfolding grows_def by blast
  then have "trace s' = trace s @ Published m # evs" by (simp add: emit_def)
  then show ?thesis by blast
qed





lemma call_cb_inbox:
  "call_cb ext cb m s = (oc, s') \<Longrightarrow> \<exists>extra. inbox s' a = inbox s a @ extra \<and> set extra \<subseteq> {m}"
  by (cases cb) (auto simp: emit_def)

lemma deliver_inbox:
  "\<exists>extra. inbox (deliver ext cbs m s) a = inbox s a @ extra \<and> set extra \<subseteq> {m}"
proof (induction cbs arbitrary: s)
  case Nil
  show ?case by simp
next
  case (Cons cb cbs)
  obtain oc s' where c: "call_cb ext cb m s = (oc, s')" by (cases "call_cb ext cb m s")
  from call_cb_inbox [OF c] obtain e1 where e1: "inbox s' a = inbox s a @ e1" "set e1 \<subseteq> {m}"
    by blast
  show ?case
  proof (cases oc)
    case Returned
    from Cons.IH [of s'] obtain e2 where
      "inbox (deliver ext cbs m s') a = inbox s' a @ e2" "set e2 \<subseteq> {m}" by blast
    then have "inbox (deliver ext (cb # cbs) m s) a = inbox s a @ (e1 @ e2) \<and> set (e1 @ e2) \<subseteq> {m}"
      using c Returned e1 by simp
    then show ?thesis by blast
  next
    case (Raised x)
    from Cons.IH [of "emit (Delivery_error x) s'"] obtain e2 where
      "inbox (deliver ext cbs m (emit (Delivery_error x) s')) a = inbox (emit (Delivery_error x) s') a @ e2"
      "set e2 \<subseteq> {m}" by blast
    then have "inbox (deliver ext (cb # cbs) m s) a = inbox s a @ (e1 @ e2) \<and> set (e1 @ e2) \<subseteq> {m}"
      using c Raised e1 by (simp add: emit_def)
    then show ?thesis by blast
  qed
qed

lemma publish_inbox:
  assumes "publish ext m s = (oc, s')"
  shows "\<exists>extra. inbox s' a = inbox s a @ extra \<and> set extra \<subseteq> {m}"
proof (cases "find_handler m (emit (Published m) s)")
  case (Some h)
  then have "call_cb ext h m (emit (Published m) s) = (oc, s')"
    using assms by (simp add: publish_def Let_def)
  from call_cb_inbox [OF this, of a] show ?thesis by (simp add: emit_def)
next
  case None
  show ?thesis
  proof (cases "(case subscribers (emit (Published m) s) (receiver m) of None \<Rightarrow> [] | Some l \<Rightarrow> l) = []")
    case True
    then have "s' = emit (No_subscribers (receiver m)) (emit (Published m) s)"
      using assms None by (simp add: publish_def Let_def)
    then show ?thesis by (simp add: emit_def)
  next
    case False
    then have "s' = deliver ext (case subscribers (emit (Published m) s) (receiver m) of None \<Rightarrow> [] | Some l \<Rightarrow> l)
                      m (emit (Published m) s)"
      using assms None by (simp add: publish_def Let_def)
    with deliver_inbox [of ext _ m "emit (Published m) s" a] show ?thesis by (simp add: emit_def)
  qed
qed

text \<open>
  C4, as the code has it. Take a message at the head of an agent's inbox whose handling
  raises an exception of class \<^verbatim>\<open>Exception\<close> with text \<open>e\<close>, and let \<open>s2\<close> be the state in
  which the handler left the system. Then the iteration ends normally. The \<^verbatim>\<open>running\<close>
  flags and the two broker tables are those of \<open>s2\<close>, and every inbox holds what it held
  in \<open>s2\<close>, followed at most by copies of the Error message. If the message was a Command,
  the first things done after the handler are the logging of the error and the
  publication of an Error message to the Command's sender, with content
  \<^verbatim>\<open>{"error": "Error processing command: " + e}\<close> and \<^verbatim>\<open>correlation_id\<close> the Command's id; if
  it was not, the logging is all that is done. With the flag set, the loop goes on with
  its next iteration from that state. A loop whose handler never raises anything but
  \<^verbatim>\<open>Exception\<close>s never dies.
\<close>

theorem process_messages_survives_exceptions:
  assumes "inbox s self = message # rest"
    and "handle_message message (s\<lparr>inbox := (inbox s)(self := rest)\<rparr>) = (Failed e, s2)"
  shows "fst (process_iteration ext handle_message self now s) = Handled
       \<and> running (snd (process_iteration ext handle_message self now s)) = running s2
       \<and> subscribers (snd (process_iteration ext handle_message self now s)) = subscribers s2
       \<and> response_handlers (snd (process_iteration ext handle_message self now s)) = response_handlers s2
       \<and> (\<forall>a. \<exists>extra. inbox (snd (process_iteration ext handle_message self now s)) a = inbox s2 a @ extra
             \<and> set extra \<subseteq> {\<lparr>msg_id = now, sender = self, receiver = sender message,
                        message_type = ERROR, priority = MEDIUM,
                        content = [(''error'', PStr (''Error processing command: '' @ e))],
                        correlation_id = Some (msg_id message), reply_to = None\<rparr>})
       \<and> (message_type message = COMMAND \<longrightarrow>
            (\<exists>evs. new_events s2 (snd (process_iteration ext handle_message self now s)) =
               Handling_error (msg_id message) e
               # Published \<lparr>msg_id = now, sender = self, receiver = sender message,
                        message_type = ERROR, priority = MEDIUM,
                        content = [(''error'', PStr (''Error processing command: '' @ e))],
                        correlation_id = Some (msg_id message), reply_to = None\<rparr>
               # evs))
       \<and> (message_type message \<noteq> COMMAND \<longrightarrow>
            snd (process_iteration ext handle_message self now s)
              = emit (Handling_error (msg_id message) e) s2)
       \<and> (running s self \<longrightarrow>
            process_messages ext handle_message self clock (Suc k) s
              = process_messages ext handle_message self clock k
                  (snd (process_iteration ext handle_message self (clock k) s)))
       \<and> ((\<forall>m t x. fst (handle_message m t) \<noteq> Exited x) \<longrightarrow>
            (\<forall>t x. fst (process_messages ext handle_message self clock bound t) \<noteq> Died x))"
proof -
  define err where "err = new_Message now self (sender message) ERROR MEDIUM
     [(''error'', PStr (''Error processing command: '' @ e))] (Some (msg_id message))"
  have err_eq: "\<lparr>msg_id = now, sender = self, receiver = sender message,
                        message_type = ERROR, priority = MEDIUM,
                        content = [(''error'', PStr (''Error processing command: '' @ e))],
                        correlation_id = Some (msg_id message), reply_to = None\<rparr> = err"
    by (simp add: err_def new_Message_def)
  define s3 where "s3 = emit (Handling_error (msg_id message) e) s2"
  define s' where "s' = snd (process_iteration ext handle_message self now s)"
  have ok: "\<And>t. fst (process_iteration ext handle_message self t s) = Handled"
    using assms
    by (auto simp: process_iteration_def process_body_def Let_def
        split: list.splits prod.splits handled.splits outcome.splits)
  have cmd: "message_type message = COMMAND \<Longrightarrow>
      \<exists>oc s4. publish ext err s3 = (oc, s4) \<and> (s' = s4 \<or> (\<exists>x. s' = emit (Loop_error x) s4))"
  proof -
    assume c: "message_type message = COMMAND"
    obtain oc s4 where p: "publish ext err s3 = (oc, s4)" by (cases "publish ext err s3")
    have "s' = s4 \<or> (\<exists>x. s' = emit (Loop_error x) s4)"
      using assms c p unfolding s'_def err_def s3_def
      by (cases oc) (auto simp: process_iteration_def process_body_def Let_def send_error_def
          send_message_def)
    with p show ?thesis by blast
  qed
  have other: "message_type message \<noteq> COMMAND \<Longrightarrow> s' = s3"
    using assms unfolding s'_def s3_def
    by (simp add: process_iteration_def process_body_def Let_def)
  have tables: "running s' = running s2 \<and> subscribers s' = subscribers s2
       \<and> response_handlers s' = response_handlers s2"
  proof (cases "message_type message = COMMAND")
    case True
    from cmd [OF True] obtain oc s4 where p: "publish ext err s3 = (oc, s4)"
      and d: "s' = s4 \<or> (\<exists>x. s' = emit (Loop_error x) s4)" by blast
    from publish_tables [OF p] d show ?thesis by (auto simp: emit_def s3_def)
  next
    case False
    from other [OF False] show ?thesis by (simp add: s3_def emit_def)
  qed
  have inb: "\<And>a. \<exists>extra. inbox s' a = inbox s2 a @ extra \<and> set extra \<subseteq> {err}"
  proof -
    fix a
    show "\<exists>extra. inbox s' a = inbox s2 a @ extra \<and> set extra \<subseteq> {err}"
    proof (cases "message_type message = COMMAND")
      case True
      from cmd [OF True] obtain oc s4 where p: "publish ext err s3 = (oc, s4)"
        and d: "s' = s4 \<or> (\<exists>x. s' = emit (Loop_error x) s4)" by blast
      from publish_inbox [OF p, of a] obtain extra where
        "inbox s4 a = inbox s3 a @ extra" "set extra \<subseteq> {err}" by blast
      then have "inbox s' a = inbox s2 a @ extra \<and> set extra \<subseteq> {err}"
        using d by (auto simp: emit_def s3_def)
      then show ?thesis by blast
    next
      case False
      from other [OF False] show ?thesis by (simp add: s3_def emit_def)
    qed
  qed
  have ev: "message_type message = COMMAND \<Longrightarrow>
      \<exists>evs. new_events s2 s' = Handling_error (msg_id message) e # Published err # evs"
  proof -
    assume c: "message_type message = COMMAND"
    from cmd [OF c] obtain oc s4 where p: "publish ext err s3 = (oc, s4)"
      and d: "s' = s4 \<or> (\<exists>x. s' = emit (Loop_error x) s4)" by blast
    from publish_trace [OF p] obtain evs where t: "trace s4 = trace s3 @ Published err # evs" by blast
    have "\<exists>evs'. trace s' = trace s2 @ Handling_error (msg_id message) e # Published err # evs'"
      using d t by (auto simp: emit_def s3_def)
    then obtain evs' where
      "trace s' = trace s2 @ Handling_error (msg_id message) e # Published err # evs'" by blast
    then have "new_events s2 s' = Handling_error (msg_id message) e # Published err # evs'"
      by (rule new_events_append)
    then show ?thesis by blast
  qed
  have loop: "running s self \<Longrightarrow>
            process_messages ext handle_message self clock (Suc k) s
              = process_messages ext handle_message self clock k
                  (snd (process_iteration ext handle_message self (clock k) s))"
  proof -
    assume r: "running s self"
    obtain h t where it: "process_iteration ext handle_message self (clock k) s = (h, t)"
      by (cases "process_iteration ext handle_message self (clock k) s")
    with ok [of "clock k"] have "h = Handled" by simp
    with it r show ?thesis by simp
  qed
  have never: "(\<forall>m t x. fst (handle_message m t) \<noteq> Exited x) \<Longrightarrow>
            (\<forall>t x. fst (process_messages ext handle_message self clock bound t) \<noteq> Died x)"
  proof -
    assume h: "\<forall>m t x. fst (handle_message m t) \<noteq> Exited x"
    have it: "\<And>u t. fst (process_iteration ext handle_message self u t) = Handled"
    proof -
      fix u t
      show "fst (process_iteration ext handle_message self u t) = Handled"
      proof (cases "inbox t self")
        case Nil
        then show ?thesis by (simp add: process_iteration_def)
      next
        case (Cons m ms)
        obtain r t2 where hm: "handle_message m (t\<lparr>inbox := (inbox t)(self := ms)\<rparr>) = (r, t2)"
          by (cases "handle_message m (t\<lparr>inbox := (inbox t)(self := ms)\<rparr>)")
        with h have "\<And>x. r \<noteq> Exited x" by (metis fst_conv)
        with Cons hm show ?thesis
          by (cases r) (auto simp: process_iteration_def process_body_def Let_def
              split: prod.splits outcome.splits)
      qed
    qed
    have "\<And>t x. fst (process_messages ext handle_message self clock bound t) \<noteq> Died x"
    proof -
      fix t x
      show "fst (process_messages ext handle_message self clock bound t) \<noteq> Died x"
      proof (induction bound arbitrary: t)
        case 0
        show ?case by simp
      next
        case (Suc j)
        obtain r t' where p: "process_iteration ext handle_message self (clock j) t = (r, t')"
          by (cases "process_iteration ext handle_message self (clock j) t")
        with it [of "clock j" t] have "r = Handled" by simp
        with p Suc.IH [of t'] show ?case by simp
      qed
    qed
    then show ?thesis by blast
  qed
  from ok [of now] tables inb ev other loop never
  show ?thesis unfolding err_eq s'_def [symmetric] s3_def by blast
qed

lemmas loop_defs = process_iteration_def process_body_def send_error_def send_message_def
  publish_def find_handler_def emit_def start_def sys_dialogue_def subscribe_def init_system_def
  new_Message_def Let_def

theorem process_messages_survives_exceptions_witness:
  "fst (process_iteration ext_quiet handle_fragile LLM ''1700000005.5'' sys_llm_busy) = Handled
   \<and> running (snd (process_iteration ext_quiet handle_fragile LLM ''1700000005.5'' sys_llm_busy)) LLM
   \<and> inbox (snd (process_iteration ext_quiet handle_fragile LLM ''1700000005.5'' sys_llm_busy)) LLM
       = [msg_cmd2]
   \<and> (\<exists>evs. new_events (sys_llm_busy\<lparr>inbox := (inbox sys_llm_busy)(LLM := [msg_cmd2])\<rparr>)
          (snd (process_iteration ext_quiet handle_fragile LLM ''1700000005.5'' sys_llm_busy)) =
           Handling_error (msg_id msg_cmd) ''no model''
           # Published \<lparr>msg_id = ''1700000005.5'', sender = LLM, receiver = sender msg_cmd,
                        message_type = ERROR, priority = MEDIUM,
                        content = [(''error'', PStr (''Error processing command: '' @ ''no model''))],
                        correlation_id = Some (msg_id msg_cmd), reply_to = None\<rparr>
           # evs)
   \<and> snd (process_iteration ext_quiet handle_fragile LLM ''1700000005.5'' sys_llm_event)
       = emit (Handling_error (msg_id msg_event) ''no model'')
           (sys_llm_event\<lparr>inbox := (inbox sys_llm_event)(LLM := [msg_cmd2])\<rparr>)
   \<and> fst (process_messages ext_quiet handle_fragile LLM (\<lambda>k. ''1700000005.5'') 3 sys_llm_busy) = Bound_reached
   \<and> inbox (snd (process_messages ext_quiet handle_fragile LLM (\<lambda>k. ''1700000005.5'') 3 sys_llm_busy)) LLM = []
   \<and> inbox (snd (process_messages ext_quiet handle_fragile LLM (\<lambda>k. ''1700000005.5'') 3 sys_llm_busy)) DIALOGUE
     = [new_Message ''1700000005.5'' LLM DIALOGUE ERROR MEDIUM
          [(''error'', PStr ''Error processing command: no model'')] (Some ''1700000002.75'')]
   \<and> fst (process_messages ext_quiet handle_fragile LLM (\<lambda>k. ''1700000005.5'') 3 sys_llm_event) = Bound_reached
   \<and> inbox (snd (process_messages ext_quiet handle_fragile LLM (\<lambda>k. ''1700000005.5'') 3 sys_llm_event)) LLM = []"
proof -
  have ib: "inbox sys_llm_busy LLM = msg_cmd # [msg_cmd2]"
    by (simp add: sys_llm_busy_def msg_cmd_def msg_cmd2_def loop_defs)
  have h: "handle_fragile msg_cmd (sys_llm_busy\<lparr>inbox := (inbox sys_llm_busy)(LLM := [msg_cmd2])\<rparr>)
             = (Failed ''no model'', sys_llm_busy\<lparr>inbox := (inbox sys_llm_busy)(LLM := [msg_cmd2])\<rparr>)"
    by (simp add: handle_fragile_def msg_cmd_def new_Message_def)
  have ty: "message_type msg_cmd = COMMAND" by (simp add: msg_cmd_def new_Message_def)
  have ie: "inbox sys_llm_event LLM = msg_event # [msg_cmd2]"
    by (simp add: sys_llm_event_def msg_event_def msg_cmd2_def loop_defs)
  have he: "handle_fragile msg_event (sys_llm_event\<lparr>inbox := (inbox sys_llm_event)(LLM := [msg_cmd2])\<rparr>)
             = (Failed ''no model'', sys_llm_event\<lparr>inbox := (inbox sys_llm_event)(LLM := [msg_cmd2])\<rparr>)"
    by (simp add: handle_fragile_def msg_event_def new_Message_def)
  have te: "message_type msg_event \<noteq> COMMAND" by (simp add: msg_event_def new_Message_def)
  have run: "running sys_llm_busy LLM"
    by (simp add: sys_llm_busy_def msg_cmd_def msg_cmd2_def loop_defs)
  have inb: "inbox (snd (process_iteration ext_quiet handle_fragile LLM ''1700000005.5'' sys_llm_busy)) LLM
       = [msg_cmd2]"
    by (simp add: handle_fragile_def sys_llm_busy_def msg_cmd_def msg_cmd2_def loop_defs)
  have l1: "fst (process_messages ext_quiet handle_fragile LLM (\<lambda>k. ''1700000005.5'') 3 sys_llm_busy) = Bound_reached
   \<and> inbox (snd (process_messages ext_quiet handle_fragile LLM (\<lambda>k. ''1700000005.5'') 3 sys_llm_busy)) LLM = []
   \<and> inbox (snd (process_messages ext_quiet handle_fragile LLM (\<lambda>k. ''1700000005.5'') 3 sys_llm_busy)) DIALOGUE
     = [new_Message ''1700000005.5'' LLM DIALOGUE ERROR MEDIUM
          [(''error'', PStr ''Error processing command: no model'')] (Some ''1700000002.75'')]"
    by (simp add: numeral_3_eq_3 handle_fragile_def sys_llm_busy_def msg_cmd_def msg_cmd2_def loop_defs)
  have l2: "fst (process_messages ext_quiet handle_fragile LLM (\<lambda>k. ''1700000005.5'') 3 sys_llm_event) = Bound_reached
   \<and> inbox (snd (process_messages ext_quiet handle_fragile LLM (\<lambda>k. ''1700000005.5'') 3 sys_llm_event)) LLM = []"
    by (simp add: numeral_3_eq_3 handle_fragile_def sys_llm_event_def msg_event_def msg_cmd2_def loop_defs)
  from process_messages_survives_exceptions
    [where ext = ext_quiet and now = "''1700000005.5''" and s = sys_llm_busy and self = LLM
       and message = msg_cmd and rest = "[msg_cmd2]" and handle_message = handle_fragile
       and e = "''no model''"
       and ?s2.0 = "sys_llm_busy\<lparr>inbox := (inbox sys_llm_busy)(LLM := [msg_cmd2])\<rparr>", OF ib h] ty
  have 1: "fst (process_iteration ext_quiet handle_fragile LLM ''1700000005.5'' sys_llm_busy) = Handled"
    and 2: "running (snd (process_iteration ext_quiet handle_fragile LLM ''1700000005.5'' sys_llm_busy))
              = running (sys_llm_busy\<lparr>inbox := (inbox sys_llm_busy)(LLM := [msg_cmd2])\<rparr>)"
    and 3: "\<exists>evs. new_events (sys_llm_busy\<lparr>inbox := (inbox sys_llm_busy)(LLM := [msg_cmd2])\<rparr>)
          (snd (process_iteration ext_quiet handle_fragile LLM ''1700000005.5'' sys_llm_busy)) =
           Handling_error (msg_id msg_cmd) ''no model''
           # Published \<lparr>msg_id = ''1700000005.5'', sender = LLM, receiver = sender msg_cmd,
                        message_type = ERROR, priority = MEDIUM,
                        content = [(''error'', PStr (''Error processing command: '' @ ''no model''))],
                        correlation_id = Some (msg_id msg_cmd), reply_to = None\<rparr>
           # evs"
    by blast+
  from process_messages_survives_exceptions
    [where ext = ext_quiet and now = "''1700000005.5''" and s = sys_llm_event and self = LLM
       and message = msg_event and rest = "[msg_cmd2]" and handle_message = handle_fragile
       and e = "''no model''"
       and ?s2.0 = "sys_llm_event\<lparr>inbox := (inbox sys_llm_event)(LLM := [msg_cmd2])\<rparr>", OF ie he] te
  have 4: "snd (process_iteration ext_quiet handle_fragile LLM ''1700000005.5'' sys_llm_event)
       = emit (Handling_error (msg_id msg_event) ''no model'')
           (sys_llm_event\<lparr>inbox := (inbox sys_llm_event)(LLM := [msg_cmd2])\<rparr>)"
    by blast
  from 2 run have r2: "running (snd (process_iteration ext_quiet handle_fragile LLM ''1700000005.5'' sys_llm_busy)) LLM"
    by simp
  from 1 r2 inb 3 4 l1 l2 show ?thesis by blast
qed

text \<open>
  The claim as the specification words it fails for an exception that is no \<^verbatim>\<open>Exception\<close>:
  a handler that calls \<^verbatim>\<open>sys.exit()\<close> on a Command ends the loop, no Error message is sent
  to the sender, and the next message stays in the inbox.
\<close>

theorem process_messages_exit_counterexample:
  "message_type msg_cmd = COMMAND
   \<and> inbox sys_llm_busy LLM = [msg_cmd, msg_cmd2]
   \<and> running sys_llm_busy LLM
   \<and> handle_exiting msg_cmd (sys_llm_busy\<lparr>inbox := (inbox sys_llm_busy)(LLM := [msg_cmd2])\<rparr>)
       = (Exited ''SystemExit'', sys_llm_busy\<lparr>inbox := (inbox sys_llm_busy)(LLM := [msg_cmd2])\<rparr>)
   \<and> fst (process_messages ext_quiet handle_exiting LLM (\<lambda>k. ''1700000005.5'') 3 sys_llm_busy)
       = Died ''SystemExit''
   \<and> inbox (snd (process_messages ext_quiet handle_exiting LLM (\<lambda>k. ''1700000005.5'') 3 sys_llm_busy)) LLM
       = [msg_cmd2]
   \<and> inbox (snd (process_messages ext_quiet handle_exiting LLM (\<lambda>k. ''1700000005.5'') 3 sys_llm_busy)) DIALOGUE
       = []"
  by (simp add: numeral_3_eq_3 handle_exiting_def sys_llm_busy_def msg_cmd_def msg_cmd2_def loop_defs)
section \<open>Properties of the retrieval engine\<close>

lemma num_norm_x: "num_norm [Num a, Num 0] = Num \<bar>a\<bar>"
  by (simp add: num_norm_def num_dot_def)

lemma num_norm_y: "num_norm [Num 0, Num b] = Num \<bar>b\<bar>"
  by (simp add: num_norm_def num_dot_def)

lemma num_norm_nan: "num_norm [NaN, Num b] = NaN"
  by (simp add: num_norm_def num_dot_def)

lemma num_norm_one: "num_norm [Num a] = Num \<bar>a\<bar>"
  by (simp add: num_norm_def num_dot_def)

lemmas small_arith_simps = small_arith_def num_dot_def num_norm_x num_norm_y num_norm_nan num_norm_one




lemma orders_mono: "orders lt S \<Longrightarrow> T \<subseteq> S \<Longrightarrow> orders lt T"
  unfolding orders_def by (meson subsetD)

lemma insert_by_score_mset: "mset (insert_by_score lt x ys) = add_mset x (mset ys)"
  by (induction ys) simp_all

lemma sort_by_score_mset: "mset (sort_by_score lt hs) = mset hs"
  by (induction hs) (simp_all add: sort_by_score_def insert_by_score_mset)

lemma sort_by_score_set: "set (sort_by_score lt hs) = set hs"
  by (metis sort_by_score_mset set_mset_mset)

lemma insert_by_score_set: "set (insert_by_score lt x ys) = insert x (set ys)"
  by (metis insert_by_score_mset set_mset_mset set_mset_add_mset_insert)

lemma insert_by_score_sorted:
  assumes "orders lt (score ` insert x (set ys))"
    and "sorted_wrt (\<lambda>a b. \<not> lt (score a) (score b)) ys"
  shows "sorted_wrt (\<lambda>a b. \<not> lt (score a) (score b)) (insert_by_score lt x ys)"
  using assms
proof (induction ys)
  case Nil
  show ?case by simp
next
  case (Cons y ys)
  let ?S = "score ` insert x (set (y # ys))"
  have o: "orders lt ?S" by (rule Cons.prems(1))
  have mem: "score x \<in> ?S" "score y \<in> ?S" "\<And>z. z \<in> set ys \<Longrightarrow> score z \<in> ?S" by auto
  have irr: "\<And>a. a \<in> ?S \<Longrightarrow> \<not> lt a a"
    and tr: "\<And>a b c. a \<in> ?S \<Longrightarrow> b \<in> ?S \<Longrightarrow> c \<in> ?S \<Longrightarrow> lt a b \<Longrightarrow> lt b c \<Longrightarrow> lt a c"
    and ntr: "\<And>a b c. a \<in> ?S \<Longrightarrow> b \<in> ?S \<Longrightarrow> c \<in> ?S \<Longrightarrow> \<not> lt a b \<Longrightarrow> \<not> lt b c \<Longrightarrow> \<not> lt a c"
    using o unfolding orders_def by blast+
  have o': "orders lt (score ` insert x (set ys))"
    by (rule orders_mono [OF o]) auto
  have sy: "\<And>z. z \<in> set ys \<Longrightarrow> \<not> lt (score y) (score z)" and s': "sorted_wrt (\<lambda>a b. \<not> lt (score a) (score b)) ys"
    using Cons.prems(2) by simp_all
  show ?case
  proof (cases "lt (score x) (score y)")
    case True
    have "\<not> lt (score y) (score x)"
    proof
      assume "lt (score y) (score x)"
      with True have "lt (score x) (score x)" using tr [OF mem(1) mem(2) mem(1)] by blast
      with irr [OF mem(1)] show False by blast
    qed
    then have "\<And>z. z \<in> set (insert_by_score lt x ys) \<Longrightarrow> \<not> lt (score y) (score z)"
      using sy by (auto simp: insert_by_score_set)
    with Cons.IH [OF o' s'] True show ?thesis by simp
  next
    case False
    have "\<And>z. z \<in> set ys \<Longrightarrow> \<not> lt (score x) (score z)"
      using ntr [OF mem(1) mem(2) mem(3)] False sy by blast
    with False Cons.prems(2) show ?thesis by auto
  qed
qed

lemma sort_by_score_sorted:
  "orders lt (score ` set hs) \<Longrightarrow> sorted_wrt (\<lambda>a b. \<not> lt (score a) (score b)) (sort_by_score lt hs)"
proof (induction hs)
  case Nil
  show ?case by (simp add: sort_by_score_def)
next
  case (Cons h hs)
  have "orders lt (score ` set hs)" by (rule orders_mono [OF Cons.prems]) auto
  from Cons.IH [OF this] have s: "sorted_wrt (\<lambda>a b. \<not> lt (score a) (score b)) (sort_by_score lt hs)" .
  have o: "orders lt (score ` insert h (set (sort_by_score lt hs)))"
    using Cons.prems by (simp add: sort_by_score_set)
  have "sort_by_score lt (h # hs) = insert_by_score lt h (sort_by_score lt hs)"
    by (simp add: sort_by_score_def)
  with insert_by_score_sorted [OF o s] show ?case by simp
qed

lemma insert_by_score_filter:
  assumes "orders lt S" and "score x \<in> S" and "score ` set ys \<subseteq> S" and "v \<in> S"
  shows "filter (\<lambda>h. tied lt (score h) v) (insert_by_score lt x ys) =
         filter (\<lambda>h. tied lt (score h) v) (x # ys)"
  using assms(3)
proof (induction ys)
  case Nil
  show ?case by simp
next
  case (Cons y ys)
  have y: "score y \<in> S" and ys: "score ` set ys \<subseteq> S" using Cons.prems by auto
  have ntr: "\<And>a b c. a \<in> S \<Longrightarrow> b \<in> S \<Longrightarrow> c \<in> S \<Longrightarrow> \<not> lt a b \<Longrightarrow> \<not> lt b c \<Longrightarrow> \<not> lt a c"
    using assms(1) unfolding orders_def by blast
  show ?case
  proof (cases "lt (score x) (score y)")
    case True
    have "\<not> (tied lt (score x) v \<and> tied lt (score y) v)"
      using ntr [OF assms(2) assms(4) y] True by (auto simp: tied_def)
    with Cons.IH [OF ys] True show ?thesis by auto
  next
    case False
    then show ?thesis by simp
  qed
qed

lemma sort_by_score_stable:
  assumes "orders lt S" and "score ` set hs \<subseteq> S" and "v \<in> S"
  shows "filter (\<lambda>h. tied lt (score h) v) (sort_by_score lt hs) = filter (\<lambda>h. tied lt (score h) v) hs"
  using assms(2)
proof (induction hs)
  case Nil
  show ?case by (simp add: sort_by_score_def)
next
  case (Cons h hs)
  have h: "score h \<in> S" and hs: "score ` set hs \<subseteq> S" using Cons.prems by auto
  have s: "score ` set (sort_by_score lt hs) \<subseteq> S" using hs by (simp add: sort_by_score_set)
  have "sort_by_score lt (h # hs) = insert_by_score lt h (sort_by_score lt hs)"
    by (simp add: sort_by_score_def)
  with insert_by_score_filter [OF assms(1) h s assms(3)] Cons.IH [OF hs] show ?case by simp
qed

lemma slice_upto_take: "\<exists>n. slice_upto k xs = take n xs"
  by (auto simp: slice_upto_def)

lemma existing_ids_strings:
  "existing_ids docs (map PStr ds) = Inr (filter (\<lambda>d. d \<in> fst ` set docs) ds)"
  by (induction ds) auto

lemma filter_document_ids_cases:
  assumes "filter_document_ids filters r = Inr ids"
  shows "((filters = None \<or> (\<exists>f. filters = Some f \<and> map_of f ''document_id'' = None)) \<longrightarrow>
            ids = map fst (documents r))
       \<and> (\<forall>f d. filters = Some f \<and> map_of f ''document_id'' = Some (PStr d) \<longrightarrow>
            ids = (if d \<in> fst ` set (documents r) then [d] else []))
       \<and> (\<forall>f ds. filters = Some f \<and> map_of f ''document_id'' = Some (PList (map PStr ds)) \<longrightarrow>
            ids = filter (\<lambda>d. d \<in> fst ` set (documents r)) ds)"
proof (intro conjI allI impI)
  assume "filters = None \<or> (\<exists>f. filters = Some f \<and> map_of f ''document_id'' = None)"
  with assms show "ids = map fst (documents r)"
    by (auto simp: filter_document_ids_def split: if_splits)
next
  fix f d
  assume "filters = Some f \<and> map_of f ''document_id'' = Some (PStr d)"
  moreover from this have "f \<noteq> []" by auto
  ultimately show "ids = (if d \<in> fst ` set (documents r) then [d] else [])"
    using assms by (auto simp: filter_document_ids_def)
next
  fix f ds
  assume a: "filters = Some f \<and> map_of f ''document_id'' = Some (PList (map PStr ds))"
  then have "f \<noteq> []" by auto
  with a assms have "existing_ids (documents r) (map PStr ds) = Inr ids"
    by (simp add: filter_document_ids_def)
  then show "ids = filter (\<lambda>d. d \<in> fst ` set (documents r)) ds"
    by (simp add: existing_ids_strings)
qed

lemma scan_vectors_entries:
  "scan_vectors ar q d dc vs = Inr hs \<Longrightarrow>
     list_all2 (\<lambda>h ce. hit_document_id h = d \<and> hit_chunk_id h = fst ce
                  \<and> cosine_similarity ar q (snd ce) = Inr (score h)
                  \<and> (\<exists>chunk. dc (fst ce) = Some chunk
                        \<and> hit_content h = chunk_content chunk \<and> hit_metadata h = metadata chunk))
       hs (filter (\<lambda>ce. dc (fst ce) \<noteq> None) vs)"
proof (induction vs arbitrary: hs)
  case Nil
  then show ?case by simp
next
  case (Cons ce vs)
  show ?case
  proof (cases "dc (fst ce)")
    case None
    with Cons show ?thesis by simp
  next
    case (Some chunk)
    with Cons.prems obtain sc hs' where c: "cosine_similarity ar q (snd ce) = Inr sc"
      and s: "scan_vectors ar q d dc vs = Inr hs'"
      and hs: "hs = \<lparr>hit_document_id = d, hit_chunk_id = fst ce, hit_content = chunk_content chunk,
                     hit_metadata = metadata chunk, score = sc\<rparr> # hs'"
      by (auto split: sum.splits)
    from Cons.IH [OF s] Some c show ?thesis unfolding hs by simp
  qed
qed

lemma scan_documents_entries:
  "scan_documents ar q r ids = Inr hs \<Longrightarrow>
     list_all2 (\<lambda>h p. hit_document_id h = fst p \<and> hit_chunk_id h = fst (snd p)
                  \<and> cosine_similarity ar q (snd (snd p)) = Inr (score h)
                  \<and> (\<exists>chunk. chunks_by_id (get_default (documents r) (fst p) []) (fst (snd p)) = Some chunk
                        \<and> hit_content h = chunk_content chunk \<and> hit_metadata h = metadata chunk))
       hs (concat (map (\<lambda>d. map (Pair d)
             (filter (\<lambda>ce. chunks_by_id (get_default (documents r) d []) (fst ce) \<noteq> None)
                (get_default (vectors r) d []))) ids))"
proof (induction ids arbitrary: hs)
  case Nil
  then show ?case by simp
next
  case (Cons d ids)
  from Cons.prems obtain h1 h2 where
    1: "scan_vectors ar q d (chunks_by_id (get_default (documents r) d [])) (get_default (vectors r) d []) = Inr h1"
    and 2: "scan_documents ar q r ids = Inr h2" and hs: "hs = h1 @ h2"
    by (auto split: sum.splits)
  have a: "list_all2 (\<lambda>h p. hit_document_id h = fst p \<and> hit_chunk_id h = fst (snd p)
                  \<and> cosine_similarity ar q (snd (snd p)) = Inr (score h)
                  \<and> (\<exists>chunk. chunks_by_id (get_default (documents r) (fst p) []) (fst (snd p)) = Some chunk
                        \<and> hit_content h = chunk_content chunk \<and> hit_metadata h = metadata chunk))
       h1 (map (Pair d) (filter (\<lambda>ce. chunks_by_id (get_default (documents r) d []) (fst ce) \<noteq> None)
                (get_default (vectors r) d [])))"
    using scan_vectors_entries [OF 1] by (simp add: list_all2_map2)
  from list_all2_appendI [OF a Cons.IH [OF 2]] show ?case unfolding hs by simp
qed

lemma scan_vectors_returns:
  "\<forall>ce \<in> set vs. length (snd ce) = length q \<Longrightarrow> \<exists>hs. scan_vectors ar q d dc vs = Inr hs"
proof (induction vs)
  case Nil
  show ?case by simp
next
  case (Cons ce vs)
  then obtain hs where "scan_vectors ar q d dc vs = Inr hs" by auto
  moreover have "\<exists>sc. cosine_similarity ar q (snd ce) = Inr sc"
    using Cons.prems by (simp add: cosine_similarity_def np_dot_def Let_def)
  ultimately show ?case by (auto split: option.splits)
qed

lemma scan_documents_returns:
  "\<forall>d \<in> set ids. \<forall>ce \<in> set (get_default (vectors r) d []). length (snd ce) = length q \<Longrightarrow>
     \<exists>hs. scan_documents ar q r ids = Inr hs"
proof (induction ids)
  case Nil
  show ?case by simp
next
  case (Cons d ids)
  then obtain h2 where "scan_documents ar q r ids = Inr h2" by auto
  moreover obtain h1 where
    "scan_vectors ar q d (chunks_by_id (get_default (documents r) d [])) (get_default (vectors r) d []) = Inr h1"
    using scan_vectors_returns [where vs = "get_default (vectors r) d []" and q = q and ar = ar
        and d = d and dc = "chunks_by_id (get_default (documents r) d [])"] Cons.prems
    by auto
  ultimately show ?case by simp
qed

text \<open>
  C5, as the code has it. The arguments of a call are the query, the filters and \<open>k\<close>; what
  the embedding service does during the call is \<open>api\<close>.

  \<^item> The call returns when the query gets an embedding, the filter names no list or dict
    as a document id, and every stored vector of the documents searched has the length of
    the query's embedding.
  \<^item> When it returns, the documents searched are all documents (no filter, or a filter
    without \<^verbatim>\<open>document_id\<close>), the named document if it is in the index (a string), or the
    named documents that are in the index, in the order named (a list of strings). The
    candidates are, document by document and inside a document in the order of its vector
    dict, the stored vectors whose chunk id is the id of a chunk of the document; each
    carries as score the cosine similarity of the query's embedding with the stored
    vector, and the content and metadata of the last chunk with that id.
  \<^item> The result is \<^verbatim>\<open>ranked[:k]\<close> for a permutation \<open>ranked\<close> of the candidates; for \<open>0 \<le> k\<close>
    these are its first \<open>k\<close> entries. Where \<^verbatim>\<open><\<close> orders the scores of the candidates (no
    NaN among them), \<open>ranked\<close> is in descending order of score and the candidates that tie
    with a candidate are in \<open>ranked\<close> in the order they have among the candidates.
  \<^item> Two calls with the same arguments on the same index return the same when the query
    gets the same embedding in both; it does whenever the generator works in mock mode.
\<close>

theorem retrieve_ranked_top_k:
  "(query_embedding (embedding_generator r) normal_vector api query = Inr q0
      \<and> filter_document_ids filters r = Inr ids0
      \<and> (\<forall>d \<in> set ids0. \<forall>ce \<in> set (get_default (vectors r) d []). length (snd ce) = length q0)
      \<longrightarrow> (\<exists>res0. retrieve ar normal_vector api query filters k r = Inr res0))
   \<and> (retrieve ar normal_vector api query filters k r = Inr res \<longrightarrow>
       (\<exists>q ids candidates ranked.
           query_embedding (embedding_generator r) normal_vector api query = Inr q
         \<and> filter_document_ids filters r = Inr ids
         \<and> ((filters = None \<or> (\<exists>f. filters = Some f \<and> map_of f ''document_id'' = None)) \<longrightarrow>
              ids = map fst (documents r))
         \<and> (\<forall>f d. filters = Some f \<and> map_of f ''document_id'' = Some (PStr d) \<longrightarrow>
              ids = (if d \<in> fst ` set (documents r) then [d] else []))
         \<and> (\<forall>f ds. filters = Some f \<and> map_of f ''document_id'' = Some (PList (map PStr ds)) \<longrightarrow>
              ids = filter (\<lambda>d. d \<in> fst ` set (documents r)) ds)
         \<and> scan_documents ar q r ids = Inr candidates
         \<and> list_all2
             (\<lambda>h p. hit_document_id h = fst p \<and> hit_chunk_id h = fst (snd p)
                \<and> cosine_similarity ar q (snd (snd p)) = Inr (score h)
                \<and> (\<exists>chunk. chunks_by_id (get_default (documents r) (fst p) []) (fst (snd p)) = Some chunk
                      \<and> hit_content h = chunk_content chunk \<and> hit_metadata h = metadata chunk))
             candidates
             (concat (map (\<lambda>d. map (Pair d)
                (filter (\<lambda>ce. chunks_by_id (get_default (documents r) d []) (fst ce) \<noteq> None)
                   (get_default (vectors r) d []))) ids))
         \<and> mset ranked = mset candidates
         \<and> (orders (fl_lt ar) (score ` set candidates) \<longrightarrow>
              sorted_wrt (\<lambda>a b. \<not> fl_lt ar (score a) (score b)) ranked
              \<and> (\<forall>h0 \<in> set candidates.
                    filter (\<lambda>h. tied (fl_lt ar) (score h) (score h0)) ranked =
                    filter (\<lambda>h. tied (fl_lt ar) (score h) (score h0)) candidates))
         \<and> res = slice_upto k ranked
         \<and> (0 \<le> k \<longrightarrow> res = take (nat k) ranked)))
   \<and> (\<forall>api'. query_embedding (embedding_generator r) normal_vector api' query =
               query_embedding (embedding_generator r) normal_vector api query \<longrightarrow>
             retrieve ar normal_vector api' query filters k r =
             retrieve ar normal_vector api query filters k r)
   \<and> (use_mock (embedding_generator r) \<or> model_name (embedding_generator r) \<noteq> ''openai'' \<longrightarrow>
        (\<forall>api'. retrieve ar normal_vector api' query filters k r =
                retrieve ar normal_vector api query filters k r))"
  (is "?A \<and> (?H \<longrightarrow> ?R) \<and> ?C \<and> ?D")
proof (intro conjI)
  show ?A
  proof
    assume a: "query_embedding (embedding_generator r) normal_vector api query = Inr q0
      \<and> filter_document_ids filters r = Inr ids0
      \<and> (\<forall>d \<in> set ids0. \<forall>ce \<in> set (get_default (vectors r) d []). length (snd ce) = length q0)"
    then obtain hs where "scan_documents ar q0 r ids0 = Inr hs"
      using scan_documents_returns [of ids0 r q0 ar] by blast
    with a show "\<exists>res0. retrieve ar normal_vector api query filters k r = Inr res0"
      by (simp add: retrieve_def)
  qed
next
  show "?H \<longrightarrow> ?R"
  proof
    assume ret: "retrieve ar normal_vector api query filters k r = Inr res"
    then obtain q where q: "query_embedding (embedding_generator r) normal_vector api query = Inr q"
      by (auto simp: retrieve_def split: sum.splits)
    with ret obtain ids where f: "filter_document_ids filters r = Inr ids"
      by (auto simp: retrieve_def split: sum.splits)
    have "\<exists>candidates. scan_documents ar q r ids = Inr candidates
            \<and> res = slice_upto k (sort_by_score (fl_lt ar) candidates)"
    proof (cases "ids = []")
      case True
      with ret q f have "res = []" by (simp add: retrieve_def)
      with True show ?thesis by (simp add: sort_by_score_def slice_upto_def)
    next
      case False
      with ret q f show ?thesis by (auto simp: retrieve_def split: sum.splits)
    qed
    then obtain candidates where sc: "scan_documents ar q r ids = Inr candidates"
      and res: "res = slice_upto k (sort_by_score (fl_lt ar) candidates)" by blast
    define ranked where "ranked = sort_by_score (fl_lt ar) candidates"
    have m: "mset ranked = mset candidates" by (simp add: ranked_def sort_by_score_mset)
    have o: "orders (fl_lt ar) (score ` set candidates) \<longrightarrow>
              sorted_wrt (\<lambda>a b. \<not> fl_lt ar (score a) (score b)) ranked
              \<and> (\<forall>h0 \<in> set candidates.
                    filter (\<lambda>h. tied (fl_lt ar) (score h) (score h0)) ranked =
                    filter (\<lambda>h. tied (fl_lt ar) (score h) (score h0)) candidates)"
    proof (intro impI conjI ballI)
      assume ord: "orders (fl_lt ar) (score ` set candidates)"
      then show "sorted_wrt (\<lambda>a b. \<not> fl_lt ar (score a) (score b)) ranked"
        unfolding ranked_def by (rule sort_by_score_sorted)
      fix h0 assume "h0 \<in> set candidates"
      then have "score h0 \<in> score ` set candidates" by simp
      from sort_by_score_stable [OF ord subset_refl this]
      show "filter (\<lambda>h. tied (fl_lt ar) (score h) (score h0)) ranked =
            filter (\<lambda>h. tied (fl_lt ar) (score h) (score h0)) candidates"
        by (simp add: ranked_def)
    qed
    have s: "res = slice_upto k ranked" using res by (simp add: ranked_def)
    then have t: "0 \<le> k \<longrightarrow> res = take (nat k) ranked" by (simp add: slice_upto_def)
    note c = filter_document_ids_cases [OF f]
    note e = scan_documents_entries [OF sc]
    show ?R
      by (rule exI [of _ q], rule exI [of _ ids], rule exI [of _ candidates], rule exI [of _ ranked],
          intro conjI)
        (rule q f c [THEN conjunct1] c [THEN conjunct2, THEN conjunct1]
           c [THEN conjunct2, THEN conjunct2] sc e m o s t)+
  qed
next
  show ?C by (simp add: retrieve_def)
next
  show ?D by (auto simp: retrieve_def query_embedding_def generate_embeddings_def)
qed

lemma openai_batches_Nil: "openai_batches api [] = Inr []"
  by (subst openai_batches.simps) simp

lemma openai_batches_single:
  "openai_batches api [t] = (case api [t] of Inl e \<Rightarrow> Inl e | Inr b \<Rightarrow> Inr b)"
  by (subst openai_batches.simps) (simp add: openai_batches_Nil split: sum.splits)

lemma index0_eq:
  "index0 = \<lparr>documents = [(''d1'', [chunk_a, chunk_b, chunk_c, chunk_d]), (''d2'', [chunk_e])],
     vectors = [(''d1'', [(''c1'', [Num 0, Num 3]), (''c2'', [Num 2, Num 0]), (''c3'', [Num 5, Num 0])])],
     embedding_generator = \<lparr>model_name = ''openai'', use_mock = False\<rparr>\<rparr>"
  by (simp add: index0_def add_documents_def group_by_document_def group_chunk_def add_group_def
      store_vector_def get_default_def new_VectorRetriever_def new_EmbeddingGenerator_def
      chunk_a_def chunk_b_def chunk_c_def chunk_d_def chunk_e_def)

lemma index_mock_eq:
  "index_mock = \<lparr>documents = [(''d1'', [chunk_a, chunk_b])],
     vectors = [(''d1'', [(''c1'', [Num 0, Num 3]), (''c2'', [Num 2, Num 0])])],
     embedding_generator = \<lparr>model_name = ''openai'', use_mock = True\<rparr>\<rparr>"
  by (simp add: index_mock_def add_documents_def group_by_document_def group_chunk_def add_group_def
      store_vector_def get_default_def new_VectorRetriever_def new_EmbeddingGenerator_def
      chunk_a_def chunk_b_def)

lemma index_nan_eq:
  "index_nan = \<lparr>documents = [(''d1'', [chunk_a, chunk_nan, chunk_b])],
     vectors = [(''d1'', [(''c1'', [Num 0, Num 3]), (''c6'', [NaN, Num 0]), (''c2'', [Num 2, Num 0])])],
     embedding_generator = \<lparr>model_name = ''openai'', use_mock = False\<rparr>\<rparr>"
  by (simp add: index_nan_def add_documents_def group_by_document_def group_chunk_def add_group_def
      store_vector_def get_default_def new_VectorRetriever_def new_EmbeddingGenerator_def
      chunk_a_def chunk_b_def chunk_nan_def)

lemma query_embedding_up:
  "query_embedding \<lparr>model_name = ''openai'', use_mock = False\<rparr> normal0 api_up ''query''
     = Inr [Num 1, Num 0]"
  by (simp add: query_embedding_def generate_embeddings_def openai_batches_single api_up_def)

lemma query_embedding_down:
  "query_embedding \<lparr>model_name = ''openai'', use_mock = False\<rparr> normal0 api_down ''query''
     = Inr [Num 0, Num 1]"
  by (simp add: query_embedding_def generate_embeddings_def openai_batches_single api_down_def
      normal0_def)

lemma query_embedding_mock:
  "query_embedding \<lparr>model_name = ''openai'', use_mock = True\<rparr> normal0 api ''query''
     = Inr [Num 0, Num 1]"
  by (simp add: query_embedding_def generate_embeddings_def normal0_def)

lemmas retrieve_eval = retrieve_def filter_document_ids_def chunks_by_id_def get_default_def
  cosine_similarity_def np_dot_def small_arith_simps sort_by_score_def slice_upto_def Let_def
  query_embedding_up query_embedding_down query_embedding_mock
  hit_of_def chunk_a_def chunk_b_def chunk_c_def chunk_d_def chunk_e_def

theorem retrieve_ranked_top_k_witness:
  "retrieve small_arith normal0 api_up ''query'' None 2 index0
       = Inr [hit_of chunk_b (Num 1), hit_of chunk_c (Num 1)]
   \<and> scan_documents small_arith [Num 1, Num 0] index0 [''d1'', ''d2'']
       = Inr [hit_of chunk_a (Num 0), hit_of chunk_b (Num 1), hit_of chunk_c (Num 1)]
   \<and> orders (fl_lt small_arith) {Num 0, Num 1}
   \<and> (\<exists>ranked. mset ranked = mset [hit_of chunk_a (Num 0), hit_of chunk_b (Num 1), hit_of chunk_c (Num 1)]
         \<and> sorted_wrt (\<lambda>a b. \<not> fl_lt small_arith (score a) (score b)) ranked
         \<and> filter (\<lambda>h. tied (fl_lt small_arith) (score h) (Num 1)) ranked
             = [hit_of chunk_b (Num 1), hit_of chunk_c (Num 1)]
         \<and> [hit_of chunk_b (Num 1), hit_of chunk_c (Num 1)] = take 2 ranked)
   \<and> (\<exists>res. retrieve small_arith normal0 api_up ''query'' (Some [(''document_id'', PStr ''d1'')]) 1 index0
               = Inr res)
   \<and> retrieve small_arith normal0 api_down ''query'' None 2 index_mock
       = retrieve small_arith normal0 api_up ''query'' None 2 index_mock"
proof -
  let ?a = "hit_of chunk_a (Num 0)" and ?b = "hit_of chunk_b (Num 1)" and ?c = "hit_of chunk_c (Num 1)"
  have r: "retrieve small_arith normal0 api_up ''query'' None 2 index0 = Inr [?b, ?c]"
    unfolding index0_eq by (simp add: retrieve_eval)
  have qe: "query_embedding (embedding_generator index0) normal0 api_up ''query'' = Inr [Num 1, Num 0]"
    unfolding index0_eq by (simp add: query_embedding_up)
  have sc: "scan_documents small_arith [Num 1, Num 0] index0 [''d1'', ''d2''] = Inr [?a, ?b, ?c]"
    unfolding index0_eq by (simp add: retrieve_eval)
  have ord: "orders (fl_lt small_arith) {Num 0, Num 1}"
    by (simp add: orders_def small_arith_def)
  have sco: "score ` set [?a, ?b, ?c] = {Num 0, Num 1}" by (auto simp: hit_of_def)
  have fi: "filter_document_ids None index0 = Inr [''d1'', ''d2'']"
    unfolding index0_eq by (simp add: filter_document_ids_def)
  have f1: "filter_document_ids (Some [(''document_id'', PStr ''d1'')]) index0 = Inr [''d1'']"
    unfolding index0_eq by (simp add: filter_document_ids_def)
  have len: "\<forall>d \<in> set [''d1'']. \<forall>ce \<in> set (get_default (vectors index0) d []).
               length (snd ce) = length [Num 1, Num 0]"
    unfolding index0_eq by (simp add: get_default_def)
  have mock: "use_mock (embedding_generator index_mock)" by (simp add: index_mock_eq)
  note T = retrieve_ranked_top_k [where r = index0 and normal_vector = normal0 and api = api_up
      and query = "''query''" and ar = small_arith and filters = None and k = 2 and res = "[?b, ?c]"]
  from T r obtain q ids candidates ranked where
    1: "query_embedding (embedding_generator index0) normal0 api_up ''query'' = Inr q"
    and 2: "filter_document_ids None index0 = Inr ids"
    and 3: "scan_documents small_arith q index0 ids = Inr candidates"
    and 4: "mset ranked = mset candidates"
    and 5: "orders (fl_lt small_arith) (score ` set candidates) \<longrightarrow>
              sorted_wrt (\<lambda>a b. \<not> fl_lt small_arith (score a) (score b)) ranked
              \<and> (\<forall>h0 \<in> set candidates.
                    filter (\<lambda>h. tied (fl_lt small_arith) (score h) (score h0)) ranked =
                    filter (\<lambda>h. tied (fl_lt small_arith) (score h) (score h0)) candidates)"
    and 6: "(0::int) \<le> 2 \<longrightarrow> [?b, ?c] = take (nat 2) ranked"
    by blast
  from 1 qe have q: "q = [Num 1, Num 0]" by simp
  from 2 fi have ids: "ids = [''d1'', ''d2'']" by simp
  from 3 sc have c: "candidates = [?a, ?b, ?c]" unfolding q ids by simp
  from 5 ord have s: "sorted_wrt (\<lambda>a b. \<not> fl_lt small_arith (score a) (score b)) ranked"
    and st: "\<forall>h0 \<in> set candidates.
                    filter (\<lambda>h. tied (fl_lt small_arith) (score h) (score h0)) ranked =
                    filter (\<lambda>h. tied (fl_lt small_arith) (score h) (score h0)) candidates"
    unfolding c sco by simp_all
  from st have "filter (\<lambda>h. tied (fl_lt small_arith) (score h) (score ?b)) ranked =
                filter (\<lambda>h. tied (fl_lt small_arith) (score h) (score ?b)) [?a, ?b, ?c]"
    unfolding c by simp
  then have ties: "filter (\<lambda>h. tied (fl_lt small_arith) (score h) (Num 1)) ranked = [?b, ?c]"
    by (simp add: hit_of_def tied_def small_arith_def)
  from 6 have tk: "[?b, ?c] = take 2 ranked" by simp
  from 4 s ties tk have e: "\<exists>ranked. mset ranked = mset [?a, ?b, ?c]
         \<and> sorted_wrt (\<lambda>a b. \<not> fl_lt small_arith (score a) (score b)) ranked
         \<and> filter (\<lambda>h. tied (fl_lt small_arith) (score h) (Num 1)) ranked = [?b, ?c]
         \<and> [?b, ?c] = take 2 ranked"
    unfolding c by blast
  from retrieve_ranked_top_k [where r = index0 and normal_vector = normal0 and api = api_up
      and query = "''query''" and ar = small_arith and k = 1 and ?q0.0 = "[Num 1, Num 0]"
      and filters = "Some [(''document_id'', PStr ''d1'')]" and ?ids0.0 = "[''d1'']"] qe f1 len
  have ret: "\<exists>res. retrieve small_arith normal0 api_up ''query''
                     (Some [(''document_id'', PStr ''d1'')]) 1 index0 = Inr res"
    by blast
  from retrieve_ranked_top_k [where r = index_mock and normal_vector = normal0 and api = api_up
      and query = "''query''" and ar = small_arith and k = 2 and filters = None] mock
  have det: "retrieve small_arith normal0 api_down ''query'' None 2 index_mock
       = retrieve small_arith normal0 api_up ''query'' None 2 index_mock"
    by blast
  from r sc ord e ret det show ?thesis by (simp only: simp_thms)
qed

text \<open>
  C5 as stated fails in three ways, each on one index that is not changed. With the same
  query, filters and \<open>k\<close> one call gets the service's embedding of the query and the next,
  the service failing, the mock embedding: the two orderings differ. A NaN among the
  scores leaves a candidate of score 0 before one of score 1. And \<open>k = -1\<close> returns all
  candidates but the last.
\<close>

theorem retrieve_ordering_counterexample:
  "retrieve small_arith normal0 api_up ''query'' None 3 index0
       = Inr [hit_of chunk_b (Num 1), hit_of chunk_c (Num 1), hit_of chunk_a (Num 0)]
   \<and> retrieve small_arith normal0 api_down ''query'' None 3 index0
       = Inr [hit_of chunk_a (Num 1), hit_of chunk_b (Num 0), hit_of chunk_c (Num 0)]
   \<and> retrieve small_arith normal0 api_up ''query'' None 3 index_nan
       = Inr [hit_of chunk_a (Num 0), hit_of chunk_nan NaN, hit_of chunk_b (Num 1)]
   \<and> retrieve small_arith normal0 api_up ''query'' None (- 1) index0
       = Inr [hit_of chunk_b (Num 1), hit_of chunk_c (Num 1)]"
proof -
  have 1: "retrieve small_arith normal0 api_up ''query'' None 3 index0
       = Inr [hit_of chunk_b (Num 1), hit_of chunk_c (Num 1), hit_of chunk_a (Num 0)]"
    unfolding index0_eq by (simp add: retrieve_eval)
  have 2: "retrieve small_arith normal0 api_down ''query'' None 3 index0
       = Inr [hit_of chunk_a (Num 1), hit_of chunk_b (Num 0), hit_of chunk_c (Num 0)]"
    unfolding index0_eq by (simp add: retrieve_eval)
  have 3: "retrieve small_arith normal0 api_up ''query'' None 3 index_nan
       = Inr [hit_of chunk_a (Num 0), hit_of chunk_nan NaN, hit_of chunk_b (Num 1)]"
    unfolding index_nan_eq by (simp add: retrieve_eval chunk_nan_def)
  have 4: "retrieve small_arith normal0 api_up ''query'' None (- 1) index0
       = Inr [hit_of chunk_b (Num 1), hit_of chunk_c (Num 1)]"
    unfolding index0_eq by (simp add: retrieve_eval)
  from 1 2 3 4 show ?thesis by (simp only: simp_thms)
qed

lemma store_vector_lookup:
  "lookup2 (store_vector d ch vs) d' c' =
     (if has_embedding ch \<and> d' = d \<and> c' = chunk_id ch then embedding ch else lookup2 vs d' c')"
  by (auto simp: store_vector_def lookup2_def get_default_def has_embedding_def update_conv'
      split: option.splits)

lemma has_embedding_Some: "has_embedding ch \<Longrightarrow> embedding ch \<noteq> None"
  by (auto simp: has_embedding_def split: option.splits)

lemma fold_store_vector_None:
  "lookup2 (fold (store_vector d) lst vs) d' c' = None \<longleftrightarrow>
     lookup2 vs d' c' = None \<and> \<not> (d' = d \<and> (\<exists>ch \<in> set lst. chunk_id ch = c' \<and> has_embedding ch))"
proof (induction lst arbitrary: vs)
  case Nil
  show ?case by simp
next
  case (Cons ch lst)
  show ?case
    using Cons.IH [of "store_vector d ch vs"] has_embedding_Some [of ch]
    by (auto simp: store_vector_lookup)
qed

lemma add_group_vector_None:
  "vector_of (add_group g r) d' c' = None \<longleftrightarrow>
     vector_of r d' c' = None \<and>
     \<not> (d' = fst g \<and> (\<exists>ch \<in> set (snd g). chunk_id ch = c' \<and> has_embedding ch))"
  by (simp add: vector_of_def add_group_def fold_store_vector_None)

lemma fold_add_group_vector_None:
  "vector_of (fold add_group gs r) d' c' = None \<longleftrightarrow>
     vector_of r d' c' = None \<and>
     \<not> (\<exists>g \<in> set gs. fst g = d' \<and> (\<exists>ch \<in> set (snd g). chunk_id ch = c' \<and> has_embedding ch))"
proof (induction gs arbitrary: r)
  case Nil
  show ?case by simp
next
  case (Cons g gs)
  show ?case using Cons.IH [of "add_group g r"] by (auto simp: add_group_vector_None)
qed

lemma fold_group_chunk:
  "distinct (map fst g0) \<Longrightarrow>
     distinct (map fst (fold group_chunk chunks g0)) \<and>
     (\<forall>d. map_of (fold group_chunk chunks g0) d =
        (if d \<in> fst ` set g0 \<or> d \<in> document_id ` set chunks
         then Some (get_default g0 d [] @ filter (\<lambda>c. document_id c = d) chunks) else None))"
proof (induction chunks arbitrary: g0)
  case Nil
  then show ?case
    by (auto simp: get_default_def map_of_eq_None_iff split: option.splits)
next
  case (Cons ch chunks)
  define g1 where "g1 = group_chunk ch g0"
  have d1: "distinct (map fst g1)"
    using Cons.prems by (simp add: g1_def group_chunk_def distinct_update)
  have k1: "fst ` set g1 = insert (document_id ch) (fst ` set g0)"
    by (simp add: g1_def group_chunk_def dom_update)
  have v1: "\<And>d. get_default g1 d [] =
      (if d = document_id ch then get_default g0 d [] @ [ch] else get_default g0 d [])"
    by (simp add: g1_def group_chunk_def get_default_def update_conv')
  from Cons.IH [OF d1] have
    a: "distinct (map fst (fold group_chunk chunks g1))" and
    b: "\<And>d. map_of (fold group_chunk chunks g1) d =
        (if d \<in> fst ` set g1 \<or> d \<in> document_id ` set chunks
         then Some (get_default g1 d [] @ filter (\<lambda>c. document_id c = d) chunks) else None)"
    by blast+
  have f: "fold group_chunk (ch # chunks) g0 = fold group_chunk chunks g1"
    by (simp add: g1_def)
  show ?case unfolding f using a b by (auto simp: k1 v1)
qed

lemma group_by_document_member:
  "(\<exists>g \<in> set (group_by_document chunks). fst g = d \<and> ch \<in> set (snd g)) \<longleftrightarrow>
     ch \<in> set chunks \<and> document_id ch = d"
proof -
  have dist: "distinct (map fst (group_by_document chunks))"
    and m: "\<And>d. map_of (group_by_document chunks) d =
        (if d \<in> document_id ` set chunks
         then Some (filter (\<lambda>c. document_id c = d) chunks) else None)"
    using fold_group_chunk [of "[]" chunks] by (simp_all add: group_by_document_def get_default_def)
  have iff: "\<And>d l. (d, l) \<in> set (group_by_document chunks) \<longleftrightarrow> map_of (group_by_document chunks) d = Some l"
    using dist by simp
  show ?thesis
  proof
    assume "\<exists>g \<in> set (group_by_document chunks). fst g = d \<and> ch \<in> set (snd g)"
    then obtain l where "(d, l) \<in> set (group_by_document chunks)" "ch \<in> set l" by force
    then show "ch \<in> set chunks \<and> document_id ch = d"
      using iff [of d l] m [of d] by (auto split: if_splits)
  next
    assume a: "ch \<in> set chunks \<and> document_id ch = d"
    then have "map_of (group_by_document chunks) d = Some (filter (\<lambda>c. document_id c = d) chunks)"
      using m [of d] by auto
    then have "(d, filter (\<lambda>c. document_id c = d) chunks) \<in> set (group_by_document chunks)"
      using iff by simp
    then show "\<exists>g \<in> set (group_by_document chunks). fst g = d \<and> ch \<in> set (snd g)"
      using a by force
  qed
qed

lemma add_documents_vector_None:
  "vector_of (add_documents chunks r) d c = None \<longleftrightarrow>
     vector_of r d c = None \<and>
     \<not> (\<exists>ch \<in> set chunks. document_id ch = d \<and> chunk_id ch = c \<and> has_embedding ch)"
proof -
  have "(\<exists>g \<in> set (group_by_document chunks). fst g = d \<and> (\<exists>ch \<in> set (snd g). chunk_id ch = c \<and> has_embedding ch))
        \<longleftrightarrow> (\<exists>ch \<in> set chunks. document_id ch = d \<and> chunk_id ch = c \<and> has_embedding ch)"
    using group_by_document_member [of chunks d] by blast
  then show ?thesis by (simp add: add_documents_def fold_add_group_vector_None)
qed

lemma scan_vectors_hits:
  "scan_vectors ar q d dc vs = Inr hs \<Longrightarrow>
     \<forall>h \<in> set hs. hit_document_id h = d \<and> hit_chunk_id h \<in> fst ` set vs"
proof (induction vs arbitrary: hs)
  case Nil
  then show ?case by simp
next
  case (Cons ce vs)
  then show ?case by (auto split: option.splits sum.splits)
qed

lemma scan_documents_hits:
  "scan_documents ar q r ids = Inr hs \<Longrightarrow>
     \<forall>h \<in> set hs. hit_document_id h \<in> set ids \<and>
        hit_chunk_id h \<in> fst ` set (get_default (vectors r) (hit_document_id h) [])"
proof (induction ids arbitrary: hs)
  case Nil
  then show ?case by simp
next
  case (Cons d ids)
  from Cons.prems obtain h1 h2 where
    1: "scan_vectors ar q d (chunks_by_id (get_default (documents r) d [])) (get_default (vectors r) d []) = Inr h1"
    and 2: "scan_documents ar q r ids = Inr h2" and hs: "hs = h1 @ h2"
    by (auto split: sum.splits)
  from scan_vectors_hits [OF 1] Cons.IH [OF 2] show ?case unfolding hs by auto
qed

lemma in_keys_vector_of:
  assumes "c \<in> fst ` set (get_default (vectors r) d [])"
  shows "vector_of r d c \<noteq> None"
proof (cases "map_of (vectors r) d")
  case None
  with assms show ?thesis by (simp add: get_default_def)
next
  case (Some x)
  with assms have "c \<in> fst ` set x" by (simp add: get_default_def)
  then have "map_of x c \<noteq> None" by (simp add: map_of_eq_None_iff)
  with Some show ?thesis by (simp add: vector_of_def lookup2_def)
qed

lemma set_slice_upto: "set (slice_upto k xs) \<subseteq> set xs"
  by (auto simp: slice_upto_def dest: in_set_takeD)

lemma retrieve_hits:
  assumes "retrieve ar normal_vector api query filters k r = Inr res" and "h \<in> set res"
  shows "vector_of r (hit_document_id h) (hit_chunk_id h) \<noteq> None"
proof -
  from assms(1) obtain q where q: "query_embedding (embedding_generator r) normal_vector api query = Inr q"
    by (auto simp: retrieve_def split: sum.splits)
  with assms(1) obtain ids where f: "filter_document_ids filters r = Inr ids"
    by (auto simp: retrieve_def split: sum.splits)
  from assms q f have ne: "ids \<noteq> []" by (auto simp: retrieve_def split: if_splits)
  then obtain results where sc: "scan_documents ar q r ids = Inr results"
    and res: "res = slice_upto k (sort_by_score (fl_lt ar) results)"
    using assms(1) q f by (auto simp: retrieve_def split: sum.splits)
  have "h \<in> set results" using assms(2) set_slice_upto [of k "sort_by_score (fl_lt ar) results"]
    unfolding res by (auto simp: sort_by_score_set)
  with scan_documents_hits [OF sc]
  have "hit_chunk_id h \<in> fst ` set (get_default (vectors r) (hit_document_id h) [])" by auto
  then show ?thesis by (rule in_keys_vector_of)
qed

lemma has_embedding_iff: "has_embedding c \<longleftrightarrow> embedding c \<noteq> None \<and> embedding c \<noteq> Some []"
  by (auto simp: has_embedding_def split: option.splits)

text \<open>
  C10, as the code has it. After \<^verbatim>\<open>add_documents\<close> the vector mapping has an entry under a
  document id and a chunk id exactly when it had one before the call or a chunk of the
  batch with these two ids has an embedding that is neither \<^verbatim>\<open>None\<close> nor the empty list. So
  for a chunk of the batch whose ids had no entry before the call and are carried by no
  other chunk of the batch: the entry exists exactly when the chunk's embedding is neither
  \<^verbatim>\<open>None\<close> nor empty, and a chunk whose embedding is the empty list gets no entry and is
  returned by no call of \<^verbatim>\<open>retrieve\<close> on the resulting index.
\<close>

theorem empty_embedding_not_indexed:
  "(vector_of (add_documents chunks r) d0 c0 = None \<longleftrightarrow>
      vector_of r d0 c0 = None \<and>
      \<not> (\<exists>ch \<in> set chunks. document_id ch = d0 \<and> chunk_id ch = c0
             \<and> embedding ch \<noteq> None \<and> embedding ch \<noteq> Some []))
   \<and> (c \<in> set chunks \<and> vector_of r (document_id c) (chunk_id c) = None
        \<and> (\<forall>c' \<in> set chunks. document_id c' = document_id c \<and> chunk_id c' = chunk_id c \<longrightarrow> c' = c)
      \<longrightarrow>
        (vector_of (add_documents chunks r) (document_id c) (chunk_id c) \<noteq> None
            \<longleftrightarrow> embedding c \<noteq> None \<and> embedding c \<noteq> Some [])
      \<and> (embedding c = Some [] \<longrightarrow>
            vector_of (add_documents chunks r) (document_id c) (chunk_id c) = None \<and>
            (\<forall>ar normal_vector api query filters k res.
               retrieve ar normal_vector api query filters k (add_documents chunks r) = Inr res \<longrightarrow>
               (\<forall>h \<in> set res. \<not> (hit_document_id h = document_id c \<and> hit_chunk_id h = chunk_id c)))))"
  (is "?G \<and> (?H \<longrightarrow> ?I \<and> ?N)")
proof (rule conjI)
  show ?G
    using add_documents_vector_None [of chunks r d0 c0] by (simp only: has_embedding_iff)
next
  show "?H \<longrightarrow> ?I \<and> ?N"
  proof (rule impI)
    assume h: ?H
    have ex: "(\<exists>ch \<in> set chunks. document_id ch = document_id c \<and> chunk_id ch = chunk_id c \<and> has_embedding ch)
              \<longleftrightarrow> has_embedding c"
      using h by auto
    have "vector_of (add_documents chunks r) (document_id c) (chunk_id c) = None \<longleftrightarrow> \<not> has_embedding c"
      using add_documents_vector_None [of chunks r "document_id c" "chunk_id c"] h ex
      by simp
    then have "vector_of (add_documents chunks r) (document_id c) (chunk_id c) \<noteq> None \<longleftrightarrow> has_embedding c"
      by simp
    then have iff: ?I by (simp only: has_embedding_iff)
    have never: ?N
    proof (rule impI)
      assume e: "embedding c = Some []"
      with iff have n: "vector_of (add_documents chunks r) (document_id c) (chunk_id c) = None" by simp
      have "\<And>ar normal_vector api query filters k res h.
              retrieve ar normal_vector api query filters k (add_documents chunks r) = Inr res \<Longrightarrow>
              h \<in> set res \<Longrightarrow>
              \<not> (hit_document_id h = document_id c \<and> hit_chunk_id h = chunk_id c)"
      proof -
        fix ar normal_vector api query filters k res h
        assume r: "retrieve ar normal_vector api query filters k (add_documents chunks r) = Inr res"
          and h: "h \<in> set res"
        from retrieve_hits [OF r h]
        have "vector_of (add_documents chunks r) (hit_document_id h) (hit_chunk_id h) \<noteq> None" .
        with n show "\<not> (hit_document_id h = document_id c \<and> hit_chunk_id h = chunk_id c)" by auto
      qed
      with n show "vector_of (add_documents chunks r) (document_id c) (chunk_id c) = None \<and>
            (\<forall>ar normal_vector api query filters k res.
               retrieve ar normal_vector api query filters k (add_documents chunks r) = Inr res \<longrightarrow>
               (\<forall>h \<in> set res. \<not> (hit_document_id h = document_id c \<and> hit_chunk_id h = chunk_id c)))"
        by blast
    qed
    from iff never show "?I \<and> ?N" by (rule conjI)
  qed
qed

lemma index_again_eq:
  "add_documents [chunk_again] index0 =
     \<lparr>documents = [(''d1'', [chunk_a, chunk_b, chunk_c, chunk_d, chunk_again]), (''d2'', [chunk_e])],
      vectors = [(''d1'', [(''c1'', [Num 0, Num 3]), (''c2'', [Num 2, Num 0]), (''c3'', [Num 5, Num 0])])],
      embedding_generator = \<lparr>model_name = ''openai'', use_mock = False\<rparr>\<rparr>"
  unfolding index0_eq
  by (simp add: add_documents_def group_by_document_def group_chunk_def add_group_def
      store_vector_def get_default_def chunk_again_def)

theorem empty_embedding_not_indexed_witness:
  "embedding chunk_d = Some []
   \<and> vector_of index0 ''d1'' ''c4'' = None
   \<and> vector_of index0 ''d2'' ''c5'' = None
   \<and> vector_of index0 ''d1'' ''c1'' = Some [Num 0, Num 3]
   \<and> retrieve small_arith normal0 api_up ''query'' None 10 index0
       = Inr [hit_of chunk_b (Num 1), hit_of chunk_c (Num 1), hit_of chunk_a (Num 0)]"
proof -
  let ?batch = "[chunk_a, chunk_b, chunk_c, chunk_d, chunk_e]"
  let ?r = "new_VectorRetriever (Some ''sk-key'') :: num VectorRetriever"
  have 1: "chunk_d \<in> set ?batch" by simp
  have 2: "vector_of ?r (document_id chunk_d) (chunk_id chunk_d) = None"
    by (simp add: vector_of_def lookup2_def new_VectorRetriever_def)
  have 3: "\<forall>c' \<in> set ?batch.
             document_id c' = document_id chunk_d \<and> chunk_id c' = chunk_id chunk_d \<longrightarrow> c' = chunk_d"
    by (simp add: chunk_a_def chunk_b_def chunk_c_def chunk_d_def chunk_e_def)
  have e: "embedding chunk_d = Some []" by (simp add: chunk_d_def)
  have ids: "document_id chunk_d = ''d1''" "chunk_id chunk_d = ''c4''" by (simp_all add: chunk_d_def)
  have v: "vector_of index0 ''d1'' ''c1'' = Some [Num 0, Num 3]"
    unfolding index0_eq by (simp add: vector_of_def lookup2_def)
  have r: "retrieve small_arith normal0 api_up ''query'' None 10 index0
       = Inr [hit_of chunk_b (Num 1), hit_of chunk_c (Num 1), hit_of chunk_a (Num 0)]"
    unfolding index0_eq by (simp add: retrieve_eval)
  have 4: "vector_of ?r ''d2'' ''c5'' = None"
    by (simp add: vector_of_def lookup2_def new_VectorRetriever_def)
  have 5: "\<not> (\<exists>ch \<in> set ?batch. document_id ch = ''d2'' \<and> chunk_id ch = ''c5''
             \<and> embedding ch \<noteq> None \<and> embedding ch \<noteq> Some [])"
    by (simp add: chunk_a_def chunk_b_def chunk_c_def chunk_d_def chunk_e_def)
  note T = empty_embedding_not_indexed [where chunks = ?batch and r = ?r and c = chunk_d
      and ?d0.0 = "''d2''" and ?c0.0 = "''c5''"]
  from T 1 2 3 e have n1: "vector_of index0 ''d1'' ''c4'' = None"
    unfolding index0_def [symmetric] ids by blast
  from T 4 5 have n2: "vector_of index0 ''d2'' ''c5'' = None"
    unfolding index0_def [symmetric] by blast
  from e n1 n2 v r show ?thesis by (simp only: simp_thms)
qed

text \<open>
  C10 as stated fails for a chunk whose ids have an entry already: \<open>chunk_again\<close> is passed to
  \<^verbatim>\<open>add_documents\<close> with an empty embedding, the entry stored for its ids stays, and
  \<^verbatim>\<open>retrieve\<close> returns the chunk, scored by the vector of its predecessor.
\<close>

theorem stale_vector_counterexample:
  "embedding chunk_again = Some []
   \<and> vector_of (add_documents [chunk_again] index0) (document_id chunk_again) (chunk_id chunk_again)
       = Some [Num 0, Num 3]
   \<and> retrieve small_arith normal0 api_down ''query'' None 1 (add_documents [chunk_again] index0)
       = Inr [hit_of chunk_again (Num 1)]"
proof -
  have 1: "embedding chunk_again = Some []" by (simp add: chunk_again_def)
  have 2: "vector_of (add_documents [chunk_again] index0) (document_id chunk_again) (chunk_id chunk_again)
       = Some [Num 0, Num 3]"
    unfolding index_again_eq by (simp add: vector_of_def lookup2_def chunk_again_def)
  have 3: "retrieve small_arith normal0 api_down ''query'' None 1 (add_documents [chunk_again] index0)
       = Inr [hit_of chunk_again (Num 1)]"
    unfolding index_again_eq by (simp add: retrieve_eval chunk_again_def)
  from 1 2 3 show ?thesis by (simp only: simp_thms)
qed

lemma delete_filter: "AList.delete k xs = filter (\<lambda>p. fst p \<noteq> k) xs"
  by (induction xs) auto

lemma key_filtered: "d \<notin> fst ` {x \<in> set xs. fst x \<noteq> d}"
  by auto

lemma send_response_trace:
  "send_response ext self now original c s = (oc, s') \<Longrightarrow>
     \<exists>evs. trace s' = trace s @
       Published (new_Message now self (sender original) RESPONSE MEDIUM c (Some (msg_id original))) # evs"
  unfolding send_response_def send_message_def by (rule publish_trace)

lemma send_error_trace:
  "send_error ext self now rcv err corr s = (oc, s') \<Longrightarrow>
     \<exists>evs. trace s' = trace s @
       Published (new_Message now self rcv ERROR MEDIUM [(''error'', PStr err)] corr) # evs"
  unfolding send_error_def send_message_def by (rule publish_trace)

lemma retrieve_removed:
  "retrieve ar normal_vector api query (Some [(''document_id'', PStr d)]) k (snd (remove_document d r))
     = (case query_embedding (embedding_generator r) normal_vector api query of
          Inl e \<Rightarrow> Inl e | Inr q \<Rightarrow> Inr [])
   \<and> retrieve ar normal_vector api query (Some [(''document_id'', PList [PStr d])]) k
       (snd (remove_document d r))
     = (case query_embedding (embedding_generator r) normal_vector api query of
          Inl e \<Rightarrow> Inl e | Inr q \<Rightarrow> Inr [])"
  by (simp add: retrieve_def filter_document_ids_def remove_document_def delete_filter
      key_filtered split: sum.splits)

text \<open>
  C6, as the code has it. \<^verbatim>\<open>VectorRetriever.remove_document\<close>, for every identifier: it
  returns the number of chunks the document had (0 when it was absent), takes the
  document's entry out of both dicts and leaves every other entry and the embedding
  generator as they were; afterwards no vector is stored for a chunk of the document, and
  a \<^verbatim>\<open>retrieve\<close> whose \<^verbatim>\<open>document_id\<close> filter names the document (as a string or as a
  one-element list) returns the empty list whenever the query gets an embedding (it raises
  what the embedding raises otherwise).

  The handler of the \<^verbatim>\<open>remove_document\<close> command: for a request that names the document by
  a non-empty string, the agent's retriever is the one \<^verbatim>\<open>remove_document\<close> leaves, its
  query cache is empty, and the first message published is the Response to the request,
  carrying as \<^verbatim>\<open>num_chunks_removed\<close> the number of chunks the document had. For a request
  whose \<^verbatim>\<open>document_id\<close> is missing or falsy (the empty string among others), retriever and
  cache are what they were and the first message published is the Error "Missing
  document\_id parameter" to the sender, correlated to the request.
\<close>

theorem remove_document_complete:
  "remove_document d r =
      (length (get_default (documents r) d []),
       r\<lparr>documents := filter (\<lambda>p. fst p \<noteq> d) (documents r),
         vectors := filter (\<lambda>p. fst p \<noteq> d) (vectors r)\<rparr>)
   \<and> (d \<notin> fst ` set (documents r) \<longrightarrow> fst (remove_document d r) = 0)
   \<and> vector_of (snd (remove_document d r)) d c = None
   \<and> retrieve ar normal_vector api query (Some [(''document_id'', PStr d)]) k (snd (remove_document d r))
       = (case query_embedding (embedding_generator r) normal_vector api query of
            Inl e \<Rightarrow> Inl e | Inr q \<Rightarrow> Inr [])
   \<and> retrieve ar normal_vector api query (Some [(''document_id'', PList [PStr d])]) k
         (snd (remove_document d r))
       = (case query_embedding (embedding_generator r) normal_vector api query of
            Inl e \<Rightarrow> Inl e | Inr q \<Rightarrow> Inr [])
   \<and> (handle_remove_document ext self clock message (ir, s) = (oc, ir', s') \<longrightarrow>
        (get_default (content message) ''document_id'' PNone = PStr d \<and> d \<noteq> [] \<longrightarrow>
            ir' = \<lparr>retriever = snd (remove_document d (retriever ir)), query_cache = []\<rparr>
          \<and> (\<exists>evs. new_events s s' =
                Published (new_Message (clock 0) self (sender message) RESPONSE MEDIUM
                  [(''status'', PStr ''success''), (''document_id'', PStr d),
                   (''num_chunks_removed'',
                      PInt (int (length (get_default (documents (retriever ir)) d []))))]
                  (Some (msg_id message))) # evs))
      \<and> (\<not> truthy (get_default (content message) ''document_id'' PNone) \<longrightarrow>
            ir' = ir
          \<and> (\<exists>evs. new_events s s' =
                Published (new_Message (clock 0) self (sender message) ERROR MEDIUM
                  [(''error'', PStr ''Missing document_id parameter'')]
                  (Some (msg_id message))) # evs)))"
  (is "?A \<and> ?B \<and> ?C \<and> ?D \<and> ?E \<and> (?H \<longrightarrow> (?P \<longrightarrow> ?Q) \<and> (?F \<longrightarrow> ?G))")
proof -
  have a: ?A by (simp add: remove_document_def delete_filter)
  have b: ?B
  proof
    assume "d \<notin> fst ` set (documents r)"
    then have "map_of (documents r) d = None" by (simp add: map_of_eq_None_iff)
    then show "fst (remove_document d r) = 0" by (simp add: remove_document_def get_default_def)
  qed
  have c: ?C
  proof -
    have "map_of (vectors (snd (remove_document d r))) d = None"
      by (simp add: remove_document_def delete_filter map_of_eq_None_iff key_filtered)
    then show ?thesis by (simp add: vector_of_def lookup2_def)
  qed
  note de = retrieve_removed [of ar normal_vector api query d k r]
  have h: "?H \<longrightarrow> (?P \<longrightarrow> ?Q) \<and> (?F \<longrightarrow> ?G)"
  proof (rule impI)
    assume run: ?H
    have pq: "?P \<longrightarrow> ?Q"
    proof (rule impI)
      assume p: ?P
      define r' where "r' = snd (remove_document d (retriever ir))"
      define n where "n = length (get_default (documents (retriever ir)) d [])"
      define resp where "resp = new_Message (clock 0) self (sender message) RESPONSE MEDIUM
                 [(''status'', PStr ''success''), (''document_id'', PStr d),
                  (''num_chunks_removed'', PInt (int n))] (Some (msg_id message))"
      have rm: "remove_any (PStr d) (retriever ir) = Inr (n, r')"
        by (simp add: remove_any_def r'_def n_def remove_document_def)
      obtain oc1 s1 where sr: "send_response ext self (clock 0) message
                 [(''status'', PStr ''success''), (''document_id'', PStr d),
                  (''num_chunks_removed'', PInt (int n))] s = (oc1, s1)"
        by (cases "send_response ext self (clock 0) message
                 [(''status'', PStr ''success''), (''document_id'', PStr d),
                  (''num_chunks_removed'', PInt (int n))] s")
      from send_response_trace [OF sr] obtain e1 where t1: "trace s1 = trace s @ Published resp # e1"
        unfolding resp_def by blast
      have ir': "ir' = \<lparr>retriever = r', query_cache = []\<rparr>"
        using run p rm sr
        by (cases oc1) (auto simp: handle_remove_document_def Let_def split: prod.splits)
      have tr: "\<exists>evs. trace s' = trace s @ Published resp # evs"
      proof (cases oc1)
        case Returned
        then have "s' = s1" using run p rm sr
          by (auto simp: handle_remove_document_def Let_def)
        with t1 show ?thesis by blast
      next
        case (Raised e)
        then obtain oc2 where se: "send_error ext self (clock 1) (sender message)
                  (''Error removing document: '' @ e) (Some (msg_id message))
                  (emit (Agent_error (''Error removing document: '' @ e)) s1) = (oc2, s')"
          using run p rm sr by (auto simp: handle_remove_document_def Let_def split: prod.splits)
        from send_error_trace [OF se] obtain e2 where
          "trace s' = trace (emit (Agent_error (''Error removing document: '' @ e)) s1) @ e2"
          by blast
        then have "trace s' = trace s @ Published resp # (e1 @ Agent_error (''Error removing document: '' @ e) # e2)"
          using t1 by (simp add: emit_def)
        then show ?thesis by blast
      qed
      from tr obtain evs where "trace s' = trace s @ Published resp # evs" by blast
      then have "new_events s s' = Published resp # evs" by (rule new_events_append)
      with ir' show ?Q unfolding r'_def resp_def n_def by blast
    qed
    have fg: "?F \<longrightarrow> ?G"
    proof (rule impI)
      assume f: ?F
      obtain oc1 s1 where se: "send_error ext self (clock 0) (sender message)
            ''Missing document_id parameter'' (Some (msg_id message)) s = (oc1, s1)"
        by (cases "send_error ext self (clock 0) (sender message)
            ''Missing document_id parameter'' (Some (msg_id message)) s")
      with run f have eq: "ir' = ir" "s' = s1"
        by (simp_all add: handle_remove_document_def Let_def)
      from send_error_trace [OF se] obtain evs where
        "trace s1 = trace s @ Published (new_Message (clock 0) self (sender message) ERROR MEDIUM
                  [(''error'', PStr ''Missing document_id parameter'')] (Some (msg_id message))) # evs"
        by blast
      then have "new_events s s1 = Published (new_Message (clock 0) self (sender message) ERROR MEDIUM
                  [(''error'', PStr ''Missing document_id parameter'')] (Some (msg_id message))) # evs"
        by (rule new_events_append)
      with eq show ?G by blast
    qed
    from pq fg show "(?P \<longrightarrow> ?Q) \<and> (?F \<longrightarrow> ?G)" by (rule conjI)
  qed
  from a b c de [THEN conjunct1] de [THEN conjunct2] h show ?thesis by (intro conjI)
qed

lemma index_blank_eq:
  "add_documents [chunk_blank] index0 =
     \<lparr>documents = [(''d1'', [chunk_a, chunk_b, chunk_c, chunk_d]), (''d2'', [chunk_e]), ([], [chunk_blank])],
      vectors = [(''d1'', [(''c1'', [Num 0, Num 3]), (''c2'', [Num 2, Num 0]), (''c3'', [Num 5, Num 0])]),
                 ([], [(''c7'', [Num 2, Num 0])])],
      embedding_generator = \<lparr>model_name = ''openai'', use_mock = False\<rparr>\<rparr>"
  unfolding index0_eq
  by (simp add: add_documents_def group_by_document_def group_chunk_def add_group_def
      store_vector_def get_default_def chunk_blank_def)

lemmas handler_eval = handle_remove_document_def send_error_def send_message_def publish_def
  find_handler_def emit_def sys_dialogue_def subscribe_def init_system_def new_Message_def
  new_events_def get_default_def Let_def

theorem remove_document_complete_witness:
  "query_cache ir0 \<noteq> []
   \<and> fst (remove_document ''d1'' index0) = 4
   \<and> fst (remove_document ''d3'' index0) = 0
   \<and> fst (snd (handle_remove_document ext_quiet INFORMATION_RETRIEVAL clock0 msg_remove
                  (ir0, sys_dialogue)))
       = \<lparr>retriever = \<lparr>documents = [(''d2'', [chunk_e])], vectors = [],
                         embedding_generator = \<lparr>model_name = ''openai'', use_mock = False\<rparr>\<rparr>,
          query_cache = []\<rparr>
   \<and> (\<exists>evs. new_events sys_dialogue (snd (snd (handle_remove_document ext_quiet INFORMATION_RETRIEVAL
                              clock0 msg_remove (ir0, sys_dialogue)))) =
         Published (new_Message ''1700000007.5'' INFORMATION_RETRIEVAL DIALOGUE RESPONSE MEDIUM
               [(''status'', PStr ''success''), (''document_id'', PStr ''d1''),
                (''num_chunks_removed'', PInt 4)] (Some ''1700000006.5'')) # evs)
   \<and> retrieve small_arith normal0 api_up ''query'' (Some [(''document_id'', PStr ''d1'')]) 5
        (snd (remove_document ''d1'' index0)) = Inr []
   \<and> retrieve small_arith normal0 api_up ''query'' (Some [(''document_id'', PList [PStr ''d1''])]) 5
        (snd (remove_document ''d1'' index0)) = Inr []
   \<and> fst (snd (handle_remove_document ext_quiet INFORMATION_RETRIEVAL clock0 msg_remove_blank
                  (ir_blank, sys_dialogue))) = ir_blank"
proof -
  define p where "p = handle_remove_document ext_quiet INFORMATION_RETRIEVAL clock0 msg_remove
                              (ir0, sys_dialogue)"
  define p' where "p' = handle_remove_document ext_quiet INFORMATION_RETRIEVAL clock0 msg_remove_blank
                              (ir_blank, sys_dialogue)"
  have eq: "handle_remove_document ext_quiet INFORMATION_RETRIEVAL clock0 msg_remove
              (ir0, sys_dialogue) = (fst p, fst (snd p), snd (snd p))"
    by (simp add: p_def)
  have eq': "handle_remove_document ext_quiet INFORMATION_RETRIEVAL clock0 msg_remove_blank
              (ir_blank, sys_dialogue) = (fst p', fst (snd p'), snd (snd p'))"
    by (simp add: p'_def)
  have a: "get_default (content msg_remove) ''document_id'' PNone = PStr ''d1'' \<and> ''d1'' \<noteq> []"
    by (simp add: msg_remove_def new_Message_def get_default_def)
  have a': "\<not> truthy (get_default (content msg_remove_blank) ''document_id'' PNone)"
    by (simp add: msg_remove_blank_def new_Message_def get_default_def)
  have n: "length (get_default (documents (retriever ir0)) ''d1'' []) = 4"
    by (simp add: ir0_def index0_eq get_default_def)
  have ab: "''d3'' \<notin> fst ` set (documents index0)" by (simp add: index0_eq)
  have c: "query_cache ir0 \<noteq> []" by (simp add: ir0_def)
  have m: "sender msg_remove = DIALOGUE" "msg_id msg_remove = ''1700000006.5''"
    by (simp_all add: msg_remove_def new_Message_def)
  have k: "clock0 0 = ''1700000007.5''" by (simp add: clock0_def)
  have qe: "query_embedding (embedding_generator index0) normal0 api_up ''query'' = Inr [Num 1, Num 0]"
    unfolding index0_eq by (simp add: query_embedding_up)
  have rr: "retriever ir0 = index0" by (simp add: ir0_def)
  note T = remove_document_complete [where d = "''d1''" and r = index0 and ar = small_arith
      and normal_vector = normal0 and api = api_up and query = "''query''" and k = 5
      and ext = ext_quiet and self = INFORMATION_RETRIEVAL and clock = clock0
      and message = msg_remove and ir = ir0 and s = sys_dialogue
      and oc = "fst p" and ir' = "fst (snd p)" and s' = "snd (snd p)" and c = "''c1''"]
  note T1 = T [THEN conjunct1]
  from T1 have 1: "fst (remove_document ''d1'' index0) = 4"
    using n by (simp add: rr)
  from T eq a have 2: "fst (snd p) = \<lparr>retriever = snd (remove_document ''d1'' (retriever ir0)), query_cache = []\<rparr>"
    by blast
  have 3: "snd (remove_document ''d1'' (retriever ir0)) =
       \<lparr>documents = [(''d2'', [chunk_e])], vectors = [],
        embedding_generator = \<lparr>model_name = ''openai'', use_mock = False\<rparr>\<rparr>"
    unfolding rr T1 by (simp add: index0_eq)
  from T eq a have 4: "\<exists>evs. new_events sys_dialogue (snd (snd p)) =
         Published (new_Message (clock0 0) INFORMATION_RETRIEVAL (sender msg_remove) RESPONSE MEDIUM
               [(''status'', PStr ''success''), (''document_id'', PStr ''d1''),
                (''num_chunks_removed'', PInt (int (length (get_default (documents (retriever ir0)) ''d1'' []))))]
               (Some (msg_id msg_remove))) # evs"
    by blast
  note T4 = T [THEN conjunct2, THEN conjunct2, THEN conjunct2, THEN conjunct1]
  note T5 = T [THEN conjunct2, THEN conjunct2, THEN conjunct2, THEN conjunct2, THEN conjunct1]
  have 5: "retrieve small_arith normal0 api_up ''query'' (Some [(''document_id'', PStr ''d1'')]) 5
        (snd (remove_document ''d1'' index0)) = Inr []"
    unfolding T4 qe by simp
  have 6: "retrieve small_arith normal0 api_up ''query'' (Some [(''document_id'', PList [PStr ''d1''])]) 5
        (snd (remove_document ''d1'' index0)) = Inr []"
    unfolding T5 qe by simp
  from remove_document_complete [where d = "''d3''" and r = index0] ab
  have 7: "fst (remove_document ''d3'' index0) = 0" by blast
  from remove_document_complete [where ext = ext_quiet and self = INFORMATION_RETRIEVAL
      and clock = clock0 and message = msg_remove_blank and ir = ir_blank and s = sys_dialogue
      and oc = "fst p'" and ir' = "fst (snd p')" and s' = "snd (snd p')"] eq' a'
  have 8: "fst (snd p') = ir_blank" by blast
  from c 1 7 2 3 4 5 6 8 show ?thesis
    unfolding p_def [symmetric] p'_def [symmetric] by (simp add: m k n)
qed

text \<open>
  C6 as stated fails for the document whose identifier is the empty string: the request to
  remove it is answered with an Error, the document keeps its chunk and its vector, the
  query cache keeps its entry, and a \<^verbatim>\<open>retrieve\<close> filtered on the identifier returns the
  chunk.
\<close>

theorem remove_blank_counterexample:
  "get_default (content msg_remove_blank) ''document_id'' PNone = PStr []
   \<and> get_default (documents (retriever ir_blank)) [] [] = [chunk_blank]
   \<and> fst (handle_remove_document ext_quiet INFORMATION_RETRIEVAL clock0 msg_remove_blank
            (ir_blank, sys_dialogue)) = Returned
   \<and> fst (snd (handle_remove_document ext_quiet INFORMATION_RETRIEVAL clock0 msg_remove_blank
                 (ir_blank, sys_dialogue))) = ir_blank
   \<and> inbox (snd (snd (handle_remove_document ext_quiet INFORMATION_RETRIEVAL clock0 msg_remove_blank
                        (ir_blank, sys_dialogue)))) DIALOGUE
       = [new_Message ''1700000007.5'' INFORMATION_RETRIEVAL DIALOGUE ERROR MEDIUM
            [(''error'', PStr ''Missing document_id parameter'')] (Some ''1700000008.5'')]
   \<and> query_cache ir_blank \<noteq> []
   \<and> vector_of (retriever ir_blank) [] ''c7'' = Some [Num 2, Num 0]
   \<and> retrieve small_arith normal0 api_up ''query'' (Some [(''document_id'', PStr [])]) 5
       (retriever ir_blank) = Inr [hit_of chunk_blank (Num 1)]"
proof -
  have 1: "get_default (content msg_remove_blank) ''document_id'' PNone = PStr []"
    by (simp add: msg_remove_blank_def new_Message_def get_default_def)
  have 2: "get_default (documents (retriever ir_blank)) [] [] = [chunk_blank]"
    by (simp add: ir_blank_def index_blank_eq get_default_def)
  have 3: "handle_remove_document ext_quiet INFORMATION_RETRIEVAL clock0 msg_remove_blank
            (ir_blank, sys_dialogue)
         = (Returned, ir_blank,
            snd (publish ext_quiet
                   (new_Message ''1700000007.5'' INFORMATION_RETRIEVAL DIALOGUE ERROR MEDIUM
                      [(''error'', PStr ''Missing document_id parameter'')] (Some ''1700000008.5''))
                   sys_dialogue))"
    by (simp add: msg_remove_blank_def clock0_def handler_eval)
  have 4: "inbox (snd (publish ext_quiet
                   (new_Message ''1700000007.5'' INFORMATION_RETRIEVAL DIALOGUE ERROR MEDIUM
                      [(''error'', PStr ''Missing document_id parameter'')] (Some ''1700000008.5''))
                   sys_dialogue)) DIALOGUE
       = [new_Message ''1700000007.5'' INFORMATION_RETRIEVAL DIALOGUE ERROR MEDIUM
            [(''error'', PStr ''Missing document_id parameter'')] (Some ''1700000008.5'')]"
    by (simp add: handler_eval)
  have 5: "query_cache ir_blank \<noteq> []" by (simp add: ir_blank_def ir0_def)
  have 6: "vector_of (retriever ir_blank) [] ''c7'' = Some [Num 2, Num 0]"
    by (simp add: ir_blank_def index_blank_eq vector_of_def lookup2_def)
  have 7: "retrieve small_arith normal0 api_up ''query'' (Some [(''document_id'', PStr [])]) 5
       (retriever ir_blank) = Inr [hit_of chunk_blank (Num 1)]"
    unfolding ir_blank_def index_blank_eq by (simp add: retrieve_eval chunk_blank_def)
  from 1 2 3 4 5 6 7 show ?thesis by simp
qed

section \<open>Forwarding by the orchestrator, and message identifiers\<close>

lemmas scenario_defs = sys_three_def start_def subscribe_def init_system_def
  register_response_handler_def emit_def publish_def find_handler_def send_message_def
  new_Message_def Let_def send_error_def send_response_def get_default_def
  process_iteration_def process_body_def orchestrator_as_handler_def orchestrator_handle_message_def
  orchestrator_handle_command_def route_command_def dispatch_command_def agent_of_value_def
  target_of_action_def startswith_def registry0_def register_agent_def
  ir_as_handler_def ir_handle_message_def ir_handle_command_def handle_remove_document_def
  remove_any_def remove_document_def ir0_def index0_eq render_def fmt0_def texts0_def others0_def

text \<open>
  The reply of a worker to a forwarded Command carries the id of the forwarded message,
  whatever that message carries as its own \<^verbatim>\<open>correlation_id\<close>.
\<close>

lemma reply_correlates_to_forwarded:
  "send_response ext self now forwarded c s = (oc, s') \<Longrightarrow>
     \<exists>m evs. trace s' = trace s @ Published m # evs \<and> correlation_id m = Some (msg_id forwarded)"
  by (drule send_response_trace) (auto simp: new_Message_def)

text \<open>
  C2 on the code. A caller (the dialogue agent) sends a \<^verbatim>\<open>route\<close> Command to the
  orchestrator with \<^verbatim>\<open>send_message_and_wait\<close>. The orchestrator forwards it with
  \<^verbatim>\<open>correlation_id\<close> the caller's id, under a new id of its own. The retrieval agent
  answers with \<^verbatim>\<open>correlation_id\<close> that new id, not the caller's: the caller's handler stays
  registered and is never called, the Response lands in the caller's inbox as ordinary
  traffic, and the wait ends by its timeout. With a Command forwarded by action prefix
  the worker's Error goes to the orchestrator, which logs it and does nothing else.
\<close>

theorem orchestrator_forwarding_breaks_correlation:
  "inbox route_sent ORCHESTRATOR = [msg_route]
   \<and> inbox route_forwarded INFORMATION_RETRIEVAL = [msg_routed]
   \<and> correlation_id msg_routed = Some (msg_id msg_route)
   \<and> inbox route_answered DIALOGUE = [msg_removed]
   \<and> correlation_id msg_removed = Some (msg_id msg_routed)
   \<and> correlation_id msg_removed \<noteq> Some (msg_id msg_route)
   \<and> response_handlers route_answered (msg_id msg_route) = Some (Response_handler 0)
   \<and> response_container route_answered 0 = None
   \<and> fst (send_message_and_wait ext_quiet 0 [Publish msg_routed, Publish msg_removed]
            msg_route sys_three) = Inr None
   \<and> inbox search_forwarded INFORMATION_RETRIEVAL = [msg_forwarded]
   \<and> inbox search_answered ORCHESTRATOR = [msg_unknown]
   \<and> correlation_id msg_unknown = Some (msg_id msg_forwarded)
   \<and> correlation_id msg_unknown \<noteq> Some (msg_id msg_search)
   \<and> new_events search_answered search_dropped = [Agent_error ''Unknown action: retrieve_documents'']
   \<and> response_container search_dropped 1 = None
   \<and> fst (send_message_and_wait ext_quiet 1 [Publish msg_forwarded, Publish msg_unknown]
            msg_search sys_three) = Inr None"
proof -
  have s1: "inbox route_sent ORCHESTRATOR = [msg_route]"
    by (simp add: route_sent_def msg_route_def scenario_defs)
  have s2: "inbox route_forwarded INFORMATION_RETRIEVAL = [msg_routed]"
    by (simp add: route_forwarded_def route_sent_def msg_route_def msg_routed_def scenario_defs)
  have s3: "inbox route_answered DIALOGUE = [msg_removed] \<and> response_container route_answered 0 = None
     \<and> response_handlers route_answered (msg_id msg_route) = Some (Response_handler 0)"
    by (simp add: route_answered_def route_forwarded_def route_sent_def msg_route_def
        msg_routed_def msg_removed_def scenario_defs)
  have s4: "fst (send_message_and_wait ext_quiet 0 [Publish msg_routed, Publish msg_removed]
            msg_route sys_three) = Inr None"
    by (simp add: send_message_and_wait_def run_actions_def unregister_response_handler_def
        msg_route_def msg_routed_def msg_removed_def scenario_defs)
  have c1: "correlation_id msg_routed = Some (msg_id msg_route)
     \<and> correlation_id msg_removed = Some (msg_id msg_routed)
     \<and> correlation_id msg_removed \<noteq> Some (msg_id msg_route)"
    by (simp add: msg_route_def msg_routed_def msg_removed_def new_Message_def)
  have t2: "inbox search_forwarded INFORMATION_RETRIEVAL = [msg_forwarded]"
    by (simp add: search_forwarded_def search_sent_def msg_search_def msg_forwarded_def scenario_defs)
  have t3: "inbox search_answered ORCHESTRATOR = [msg_unknown]"
    by (simp add: search_answered_def search_forwarded_def search_sent_def msg_search_def
        msg_forwarded_def msg_unknown_def scenario_defs)
  have t4: "response_container search_dropped 1 = None
     \<and> new_events search_answered search_dropped = [Agent_error ''Unknown action: retrieve_documents'']"
    by (simp add: search_dropped_def search_answered_def search_forwarded_def search_sent_def
        msg_search_def msg_forwarded_def msg_unknown_def scenario_defs new_events_def)
  have t5: "fst (send_message_and_wait ext_quiet 1 [Publish msg_forwarded, Publish msg_unknown]
            msg_search sys_three) = Inr None"
    by (simp add: send_message_and_wait_def run_actions_def unregister_response_handler_def
        msg_search_def msg_forwarded_def msg_unknown_def scenario_defs)
  have c2: "correlation_id msg_unknown = Some (msg_id msg_forwarded)
     \<and> correlation_id msg_unknown \<noteq> Some (msg_id msg_search)"
    by (simp add: msg_search_def msg_forwarded_def msg_unknown_def new_Message_def)
  from s1 s2 s3 s4 c1 t2 t3 t4 t5 c2 show ?thesis by blast
qed

text \<open>
  C9 on the code. The identifier of a message is the clock reading at its construction
  and nothing else: two different messages constructed at one reading have one id, and
  the one-shot table then holds a single entry for both, the later registration.
\<close>

theorem message_ids_collide:
  "msg_cmd \<noteq> msg_clash
   \<and> msg_id msg_cmd = msg_id msg_clash
   \<and> response_handlers
        (register_response_handler (msg_id msg_clash) (Response_handler 1)
           (register_response_handler (msg_id msg_cmd) (Response_handler 0) init_system))
        (msg_id msg_cmd) = Some (Response_handler 1)"
  by (simp add: msg_cmd_def msg_clash_def new_Message_def register_response_handler_def emit_def
      init_system_def)

lemma message_id_is_clock_reading: "msg_id (new_Message now sndr rcv mt pr c corr) = now"
  by (simp add: new_Message_def)

end
